theory Spec2Isabelle
  imports Complex_Main
begin

section \<open>Readout errors of the Aer noise model\<close>

text \<open>
  The development embeds the class \<open>ReadoutError\<close> of
  \<open>qiskit/providers/aer/noise/errors/readout_error.py\<close> and its older sibling in
  \<open>qiskit_aer/noise/readout_error.py\<close>.

  Numbers. The source computes on numpy arrays. The embedding takes the entries of a
  matrix as \<open>real\<close> numbers, and sums, products and comparisons of entries are the
  exact ones: the rounding of float64 arithmetic, the wrap-around of an array of
  integers, and infinite or NaN entries are outside the model. The properties C1 to C10
  decide the normalisation test only at the matrices they evaluate, where it comes out
  the same in float64 arithmetic; for a matrix left open they take the outcome of the
  constructor as it is. The argument of a tolerance setter is a single Python float,
  and is modelled with its infinite values and NaN.

  Errors. Every failure of the source is \<open>raise NoiseError(message)\<close>; the messages
  tell the raise sites apart. The embedding gives each raise site a constructor of
  \<open>error\<close>. Two further constructors stand for exceptions raised by the Python
  runtime and by numpy rather than by the class itself.
\<close>

subsection \<open>Data\<close>

type_synonym matrix = "real list list"

datatype error =
    EmptyInput            \<comment> \<open>"Input probabilities: empty."\<close>
  | InvalidDimension      \<comment> \<open>"Invalid probabilities: length .. != 2**..", "Invalid probabilities.",
                              "Invalid probabilities: vectors are different lengths."\<close>
  | NotNormalized         \<comment> \<open>"Invalid probabilities: sum(..)= .. is not 1."\<close>
  | NegativeProbability   \<comment> \<open>"Invalid probabilities: .. contains a negative probability."\<close>
  | DimensionMismatch     \<comment> \<open>"other must have same number of qubits."\<close>
  | InvalidExponent       \<comment> \<open>"Can only power with positive integer powers."\<close>
  | InvalidTolerance      \<comment> \<open>"Invalid atol: ..", "Invalid rtol: .."\<close>
  | OverflowError         \<comment> \<open>Python: \<open>int\<close> of an infinite float\<close>
  | ValueError            \<comment> \<open>numpy: shapes not aligned\<close>

record ReadoutError =
  probabilities :: matrix
  number_of_qubits :: nat

text \<open>
  A Python float: a finite number, an infinity or NaN. Comparing it with a finite
  number follows IEEE 754: every comparison with NaN is false.
\<close>

datatype pyfloat = Finite real | PosInf | NegInf | NaN

definition float_less :: "pyfloat \<Rightarrow> real \<Rightarrow> bool" where
  "float_less x y =
     (case x of Finite r \<Rightarrow> r < y | PosInf \<Rightarrow> False | NegInf \<Rightarrow> True | NaN \<Rightarrow> False)"

definition float_greater :: "pyfloat \<Rightarrow> real \<Rightarrow> bool" where
  "float_greater x y =
     (case x of Finite r \<Rightarrow> r > y | PosInf \<Rightarrow> True | NegInf \<Rightarrow> False | NaN \<Rightarrow> False)"

text \<open>The class attributes \<open>ATOL\<close> and \<open>RTOL\<close>, shared by all instances.\<close>

record cls =
  ATOL :: pyfloat
  RTOL :: pyfloat

text \<open>
  \<open>ATOL_DEFAULT\<close> and \<open>RTOL_DEFAULT\<close> are imported from
  \<open>qiskit.quantum_info.operators.predicates\<close>, a library outside the repository. The
  docstring of \<open>__init__\<close> gives the first as \<open>1e-8\<close>; the second is \<open>1e-5\<close>
  there.
\<close>

definition ATOL_DEFAULT :: real where
  "ATOL_DEFAULT = 1 / 10 ^ 8"

definition RTOL_DEFAULT :: real where
  "RTOL_DEFAULT = 1 / 10 ^ 5"

definition MAX_TOL :: real where
  "MAX_TOL = 1 / 10 ^ 4"

definition cls_init :: cls where
  "cls_init = \<lparr>ATOL = Finite ATOL_DEFAULT, RTOL = Finite RTOL_DEFAULT\<rparr>"

subsection \<open>Validation\<close>

fun floor_log2 :: "nat \<Rightarrow> nat" where
  "floor_log2 n = (if n < 2 then 0 else Suc (floor_log2 (n div 2)))"

declare floor_log2.simps [simp del]

text \<open>
  \<open>int(np.log2(n))\<close> for a length \<open>n\<close>. \<open>np.log2(0)\<close> is \<open>-inf\<close>, and \<open>int\<close>
  of it raises \<open>OverflowError\<close>. For \<open>n \<ge> 1\<close> the truncated logarithm is taken to be
  the exact one.
\<close>

definition int_log2 :: "nat \<Rightarrow> error + nat" where
  "int_log2 n = (if n = 0 then Inl OverflowError else Inr (floor_log2 n))"

text \<open>
  Python's \<open>sum\<close>: the entries added from the left, starting at 0. The additions are
  the exact ones of \<open>real\<close>; the source adds in the type of the array, rounding to
  float64 or wrapping at 64 bits in an array of integers.
\<close>

definition py_sum :: "real list \<Rightarrow> real" where
  "py_sum arr = foldl (+) 0 arr"

text \<open>The body of the loop \<open>for vec in probabilities\<close>.\<close>

definition check_vec :: "nat \<Rightarrow> real \<Rightarrow> real list \<Rightarrow> error + unit" where
  "check_vec num_outcomes threshold arr =
     (if length arr \<noteq> num_outcomes then Inl InvalidDimension
      else if \<bar>py_sum arr - 1\<bar> > threshold then Inl NotNormalized
      else if length (filter (\<lambda>x. x < 0) arr) > 0 then Inl NegativeProbability
      else Inr ())"

fun check_vecs :: "nat \<Rightarrow> real \<Rightarrow> matrix \<Rightarrow> error + unit" where
  "check_vecs num_outcomes threshold [] = Inr ()"
| "check_vecs num_outcomes threshold (vec # rest) =
     (case check_vec num_outcomes threshold vec of
        Inl e \<Rightarrow> Inl e
      | Inr _ \<Rightarrow> check_vecs num_outcomes threshold rest)"

definition check_probabilities :: "matrix \<Rightarrow> real \<Rightarrow> error + unit" where
  "check_probabilities probs threshold =
     (case probs of
        [] \<Rightarrow> Inl EmptyInput
      | row0 # _ \<Rightarrow>
          (let num_outcomes = length row0 in
           case int_log2 num_outcomes of
             Inl e \<Rightarrow> Inl e
           | Inr num_qubits \<Rightarrow>
               if 2 ^ num_qubits \<noteq> num_outcomes then Inl InvalidDimension
               else if length probs \<noteq> num_outcomes then Inl InvalidDimension
               else check_vecs num_outcomes threshold probs))"

text \<open>
  Modelled from the spec: \<open>qubits_from_mat\<close> of the module \<open>errorutils\<close>
  (\<open>noise_utils\<close> for the older class) is not among the sources. The spec records
  \<open>qubit_count = log2(N)\<close> with \<open>N = len(row[0])\<close>.
\<close>

definition qubits_from_mat :: "matrix \<Rightarrow> nat" where
  "qubits_from_mat mat = (case mat of [] \<Rightarrow> 0 | row0 # _ \<Rightarrow> floor_log2 (length row0))"

subsection \<open>Construction\<close>

text \<open>
  \<open>__init__(self, probabilities, atol=ATOL_DEFAULT)\<close>. The default of \<open>atol\<close> is
  the imported constant, bound when the class is defined. \<open>np.array(.., dtype=float)\<close>
  keeps a checked matrix as it is.
\<close>

definition ReadoutError_init :: "matrix \<Rightarrow> real \<Rightarrow> error + ReadoutError" where
  "ReadoutError_init probs atol =
     (case check_probabilities probs atol of
        Inl e \<Rightarrow> Inl e
      | Inr _ \<Rightarrow> Inr \<lparr>probabilities = probs, number_of_qubits = qubits_from_mat probs\<rparr>)"

text \<open>The older class: the threshold is the literal \<open>1e-10\<close>.\<close>

definition ReadoutError_init_aer :: "matrix \<Rightarrow> error + ReadoutError" where
  "ReadoutError_init_aer probs =
     (case check_probabilities probs (1 / 10 ^ 10) of
        Inl e \<Rightarrow> Inl e
      | Inr _ \<Rightarrow> Inr \<lparr>probabilities = probs, number_of_qubits = qubits_from_mat probs\<rparr>)"

subsection \<open>Tolerance setters\<close>

definition set_atol :: "pyfloat \<Rightarrow> cls \<Rightarrow> error + cls" where
  "set_atol atol c =
     (if float_less atol 0 then Inl InvalidTolerance
      else if float_greater atol MAX_TOL then Inl InvalidTolerance
      else Inr (c\<lparr>ATOL := atol\<rparr>))"

definition set_rtol :: "pyfloat \<Rightarrow> cls \<Rightarrow> error + cls" where
  "set_rtol rtol c =
     (if float_less rtol 0 then Inl InvalidTolerance
      else if float_greater rtol MAX_TOL then Inl InvalidTolerance
      else Inr (c\<lparr>RTOL := rtol\<rparr>))"

subsection \<open>Serialisation\<close>

record error_dict =
  type :: string
  operations :: "string list"
  dict_probabilities :: matrix

text \<open>\<open>as_dict\<close>; \<open>tolist()\<close> turns the stored array back into nested lists.\<close>

definition as_dict :: "ReadoutError \<Rightarrow> error_dict" where
  "as_dict self =
     \<lparr>type = ''roerror'', operations = [''measure''],
      dict_probabilities = probabilities self\<rparr>"

text \<open>\<open>as_dict\<close> of the older class, which hands out the stored value itself.\<close>

definition as_dict_aer :: "ReadoutError \<Rightarrow> error_dict" where
  "as_dict_aer self =
     \<lparr>type = ''roerror'', operations = [''measure''],
      dict_probabilities = probabilities self\<rparr>"

subsection \<open>The numpy primitives\<close>

text \<open>
  A two-dimensional array is a list of rows of one length; its shape is the number of
  rows and the length of the first row.
\<close>

definition np_shape :: "matrix \<Rightarrow> nat \<times> nat" where
  "np_shape a = (length a, case a of [] \<Rightarrow> 0 | row0 # _ \<Rightarrow> length row0)"

text \<open>
  \<open>np.dot\<close> of two-dimensional arrays is the matrix product; it raises
  \<open>ValueError\<close> when the columns of the first do not match the rows of the second.
\<close>

definition np_dot :: "matrix \<Rightarrow> matrix \<Rightarrow> error + matrix" where
  "np_dot a b =
     (if snd (np_shape a) \<noteq> fst (np_shape b) then Inl ValueError
      else Inr (map (\<lambda>row. map (\<lambda>j. sum_list (map (\<lambda>k. row ! k * b ! k ! j) [0..<length b]))
                               [0..<snd (np_shape b)]) a))"

text \<open>\<open>np.kron\<close>: every entry of the first array is replaced by its multiple of the second.\<close>

definition np_kron :: "matrix \<Rightarrow> matrix \<Rightarrow> matrix" where
  "np_kron a b = [[x * y. x \<leftarrow> ra, y \<leftarrow> rb]. ra \<leftarrow> a, rb \<leftarrow> b]"

definition np_eye :: "nat \<Rightarrow> matrix" where
  "np_eye n = map (\<lambda>i. map (\<lambda>j. if i = j then 1 else 0) [0..<n]) [0..<n]"

text \<open>
  Subtraction of arrays of one shape, entry by entry. The constructor gives every
  instance the shape of the identity it is compared with, so numpy's broadcasting of
  unequal shapes is not modelled.
\<close>

definition np_sub :: "matrix \<Rightarrow> matrix \<Rightarrow> matrix" where
  "np_sub a b = map2 (map2 (-)) a b"

text \<open>\<open>numpy.linalg.norm\<close> of a two-dimensional array: the Frobenius norm.\<close>

definition norm_fro :: "matrix \<Rightarrow> real" where
  "norm_fro a = sqrt (sum_list (map (\<lambda>x. x * x) (concat a)))"

text \<open>
  \<open>round(x, ndigits)\<close> on a numpy float: scale by \<open>10^ndigits\<close>, round to the
  nearest integer with ties going to the even one, scale back.
\<close>

definition rint :: "real \<Rightarrow> int" where
  "rint x =
     (let f = \<lfloor>x\<rfloor>; d = x - of_int f
      in if d < 1 / 2 then f
         else if d > 1 / 2 then f + 1
         else if even f then f else f + 1)"

definition py_round :: "real \<Rightarrow> nat \<Rightarrow> real" where
  "py_round x ndigits = of_int (rint (x * 10 ^ ndigits)) / 10 ^ ndigits"

subsection \<open>Identity test\<close>

definition ideal :: "ReadoutError \<Rightarrow> bool" where
  "ideal self =
     (let iden = np_eye (2 ^ number_of_qubits self);
          delta = py_round (norm_fro (np_sub (probabilities self) iden)) 12
      in if delta = 0 then True else False)"

subsection \<open>Composition, power, tensor product\<close>

text \<open>
  The argument \<open>other\<close> is either an instance of the class or raw data, which the
  methods first pass to the constructor with its default threshold.
\<close>

datatype operand = IsReadoutError ReadoutError | ArrayLike matrix

definition coerce :: "operand \<Rightarrow> error + ReadoutError" where
  "coerce other =
     (case other of
        IsReadoutError r \<Rightarrow> Inr r
      | ArrayLike m \<Rightarrow> ReadoutError_init m ATOL_DEFAULT)"

definition compose :: "ReadoutError \<Rightarrow> operand \<Rightarrow> bool \<Rightarrow> error + ReadoutError" where
  "compose self other front =
     (case coerce other of
        Inl e \<Rightarrow> Inl e
      | Inr other' \<Rightarrow>
          if number_of_qubits self \<noteq> number_of_qubits other' then Inl DimensionMismatch
          else
            (case (if front then np_dot (probabilities self) (probabilities other')
                   else np_dot (probabilities other') (probabilities self)) of
               Inl e \<Rightarrow> Inl e
             | Inr probs \<Rightarrow> ReadoutError_init probs ATOL_DEFAULT))"

text \<open>\<open>copy.deepcopy\<close> of a value is the value.\<close>

definition copy :: "ReadoutError \<Rightarrow> ReadoutError" where
  "copy self = self"

text \<open>The exponent handed to \<open>power\<close>: a Python \<open>int\<close> or a number of another type.\<close>

datatype pynum = PyInt int | PyFloat real

text \<open>The loop \<open>for _ in range(1, n): ret = ret.compose(self)\<close>, by its number of rounds.\<close>

fun power_loop :: "nat \<Rightarrow> ReadoutError \<Rightarrow> ReadoutError \<Rightarrow> error + ReadoutError" where
  "power_loop 0 self ret = Inr ret"
| "power_loop (Suc k) self ret =
     (case compose ret (IsReadoutError self) False of
        Inl e \<Rightarrow> Inl e
      | Inr ret' \<Rightarrow> power_loop k self ret')"

definition power :: "ReadoutError \<Rightarrow> pynum \<Rightarrow> error + ReadoutError" where
  "power self n =
     (case n of
        PyFloat _ \<Rightarrow> Inl InvalidExponent
      | PyInt i \<Rightarrow>
          if i < 1 then Inl InvalidExponent
          else power_loop (nat (i - 1)) self (copy self))"

definition tensor_product :: "ReadoutError \<Rightarrow> operand \<Rightarrow> bool \<Rightarrow> error + ReadoutError" where
  "tensor_product self other reverse =
     (case coerce other of
        Inl e \<Rightarrow> Inl e
      | Inr other' \<Rightarrow>
          ReadoutError_init
            (if reverse then np_kron (probabilities other') (probabilities self)
             else np_kron (probabilities self) (probabilities other'))
            ATOL_DEFAULT)"

definition tensor :: "ReadoutError \<Rightarrow> operand \<Rightarrow> error + ReadoutError" where
  "tensor self other = tensor_product self other False"

definition expand :: "ReadoutError \<Rightarrow> operand \<Rightarrow> error + ReadoutError" where
  "expand self other = tensor_product self other True"

subsection \<open>Calls against the shared class state\<close>

text \<open>
  A method call with its arguments, and what it returns. \<open>call_method\<close> runs one call
  from a given state of the class attributes and gives back the outcome with the state
  after it. Only the two setters write the class attributes, and only the two getters
  read them.
\<close>

datatype call =
    Create matrix "real option"
  | Compose ReadoutError operand bool
  | Power ReadoutError pynum
  | Tensor ReadoutError operand
  | Expand ReadoutError operand
  | Ideal ReadoutError
  | AsDict ReadoutError
  | GetAtol
  | SetAtol pyfloat
  | GetRtol
  | SetRtol pyfloat

datatype retval =
    RetInstance ReadoutError
  | RetBool bool
  | RetDict error_dict
  | RetTol pyfloat
  | RetNone

definition returning :: "error + ReadoutError \<Rightarrow> error + retval" where
  "returning r = (case r of Inl e \<Rightarrow> Inl e | Inr x \<Rightarrow> Inr (RetInstance x))"

fun call_method :: "cls \<Rightarrow> call \<Rightarrow> (error + retval) \<times> cls" where
  "call_method c (Create probs atol) =
     (returning (ReadoutError_init probs (case atol of None \<Rightarrow> ATOL_DEFAULT | Some t \<Rightarrow> t)), c)"
| "call_method c (Compose self other front) = (returning (compose self other front), c)"
| "call_method c (Power self n) = (returning (power self n), c)"
| "call_method c (Tensor self other) = (returning (tensor self other), c)"
| "call_method c (Expand self other) = (returning (expand self other), c)"
| "call_method c (Ideal self) = (Inr (RetBool (ideal self)), c)"
| "call_method c (AsDict self) = (Inr (RetDict (as_dict self)), c)"
| "call_method c GetAtol = (Inr (RetTol (ATOL c)), c)"
| "call_method c (SetAtol atol) =
     (case set_atol atol c of Inl e \<Rightarrow> (Inl e, c) | Inr c' \<Rightarrow> (Inr RetNone, c'))"
| "call_method c GetRtol = (Inr (RetTol (RTOL c)), c)"
| "call_method c (SetRtol rtol) =
     (case set_rtol rtol c of Inl e \<Rightarrow> (Inl e, c) | Inr c' \<Rightarrow> (Inr RetNone, c'))"

text \<open>A sequence of calls, each failure caught by the caller: the outcomes in order.\<close>

fun run :: "cls \<Rightarrow> call list \<Rightarrow> (error + retval) list" where
  "run c [] = []"
| "run c (x # xs) = (case call_method c x of (r, c') \<Rightarrow> r # run c' xs)"

subsection \<open>Notions used to state the properties\<close>

text \<open>One more round of the accumulation of \<open>power\<close>: compose what has been built with \<open>self\<close>.\<close>

definition then_compose :: "ReadoutError \<Rightarrow> error + ReadoutError \<Rightarrow> error + ReadoutError" where
  "then_compose self acc =
     (case acc of Inl e \<Rightarrow> Inl e | Inr ret \<Rightarrow> compose ret (IsReadoutError self) False)"

text \<open>The one call whose outcome is the value of \<open>RTOL\<close>.\<close>

definition reads_rtol :: "call \<Rightarrow> bool" where
  "reads_rtol x = (case x of GetRtol \<Rightarrow> True | _ \<Rightarrow> False)"

text \<open>The one call whose outcome is the value of \<open>ATOL\<close>.\<close>

definition reads_atol :: "call \<Rightarrow> bool" where
  "reads_atol x = (case x of GetAtol \<Rightarrow> True | _ \<Rightarrow> False)"

text \<open>A square matrix of side \<open>n\<close>: \<open>n\<close> rows of \<open>n\<close> entries.\<close>

definition square_of_side :: "nat \<Rightarrow> matrix \<Rightarrow> bool" where
  "square_of_side n m \<longleftrightarrow> length m = n \<and> (\<forall>row \<in> set m. length row = n)"

text \<open>
  The Euclidean norm of \<open>m - I\<close> in the words of the specification: the square root of
  the sum, over all positions, of the squared difference to the identity matrix.
\<close>

definition euclid_dist_to_identity :: "nat \<Rightarrow> matrix \<Rightarrow> real" where
  "euclid_dist_to_identity n m =
     sqrt (\<Sum>i<n. \<Sum>j<n. (m ! i ! j - (if i = j then 1 else 0))\<^sup>2)"

text \<open>
  The Kronecker product in the words of the specification, the first operand indexing
  the more significant block: the entry at row \<open>i\<close>, column \<open>j\<close> is the entry
  \<open>(i div m, j div m)\<close> of the first times the entry \<open>(i mod m, j mod m)\<close> of the
  second, \<open>m\<close> being the side of the second.
\<close>

definition kronecker :: "matrix \<Rightarrow> matrix \<Rightarrow> matrix" where
  "kronecker a b =
     (let n = length a; m = length b
      in map (\<lambda>i. map (\<lambda>j. a ! (i div m) ! (j div m) * b ! (i mod m) ! (j mod m)) [0..<n * m])
             [0..<n * m])"

text \<open>A row of \<open>np.kron\<close>: every entry of a row of the first times a row of the second.\<close>

definition kron_row :: "real list \<Rightarrow> real list \<Rightarrow> real list" where
  "kron_row ra rb = [x * y. x \<leftarrow> ra, y \<leftarrow> rb]"

text \<open>
  The matrix product in the words of the specification: the entry at row \<open>i\<close>,
  column \<open>j\<close> of \<open>b \<cdot> a\<close> is the sum over \<open>k\<close> of \<open>b(i, k) * a(k, j)\<close>.
\<close>

definition mat_prod :: "matrix \<Rightarrow> matrix \<Rightarrow> matrix" where
  "mat_prod b a =
     (let n = length b
      in map (\<lambda>i. map (\<lambda>j. \<Sum>k<n. b ! i ! k * a ! k ! j) [0..<n]) [0..<n])"

section \<open>Properties\<close>

subsection \<open>Helper facts\<close>

lemma py_sum_sum_list: "py_sum arr = sum_list arr"
proof -
  have "foldl (+) a arr = a + sum_list arr" for a :: real
    by (induction arr arbitrary: a) simp_all
  then show ?thesis by (simp add: py_sum_def)
qed

lemma floor_log2_0 [simp]: "floor_log2 0 = 0"
  by (simp add: floor_log2.simps)

lemma floor_log2_1 [simp]: "floor_log2 (Suc 0) = 0"
  by (simp add: floor_log2.simps)

lemma floor_log2_pow [simp]: "floor_log2 (2 ^ k) = k"
proof (induction k)
  case 0
  then show ?case by simp
next
  case (Suc k)
  have "(2::nat) ^ Suc k div 2 = 2 ^ k" by simp
  moreover have "\<not> (2::nat) ^ Suc k < 2" by simp
  ultimately show ?case
    using Suc floor_log2.simps [of "2 ^ Suc k"] by simp
qed

lemma floor_log2_2 [simp]: "floor_log2 (Suc (Suc 0)) = Suc 0"
  using floor_log2_pow [of 1] by (simp add: numeral_2_eq_2)

lemma floor_log2_4 [simp]: "floor_log2 (Suc (Suc (Suc (Suc 0)))) = Suc (Suc 0)"
  using floor_log2_pow [of 2] by (simp add: eval_nat_numeral)

subsection \<open>Tolerance setters\<close>

text \<open>
  On finite values the setters keep the range \<open>[0, MAX_TOL]\<close> with
  \<open>MAX_TOL = 1e-4\<close>: a negative value and a value above \<open>MAX_TOL\<close>, such as
  \<open>1e-3\<close>, fail with \<open>InvalidTolerance\<close>, a value inside the range is stored in
  the setting shared by all instances, the other setting left alone. Both infinities
  fail as well.
\<close>

lemma tolerance_setters_finite:
  "MAX_TOL = 1 / 10 ^ 4
   \<and> (v < 0 \<or> MAX_TOL < v \<longrightarrow>
        set_atol (Finite v) c = Inl InvalidTolerance
        \<and> set_rtol (Finite v) c = Inl InvalidTolerance)
   \<and> (0 \<le> v \<and> v \<le> MAX_TOL \<longrightarrow>
        set_atol (Finite v) c = Inr (c\<lparr>ATOL := Finite v\<rparr>)
        \<and> set_rtol (Finite v) c = Inr (c\<lparr>RTOL := Finite v\<rparr>))
   \<and> set_atol (Finite (1 / 10 ^ 3)) c = Inl InvalidTolerance
   \<and> set_rtol (Finite (1 / 10 ^ 3)) c = Inl InvalidTolerance"
  by (auto simp: set_atol_def set_rtol_def float_less_def float_greater_def MAX_TOL_def)

lemma tolerance_setters_infinite:
  "set_atol PosInf c = Inl InvalidTolerance \<and> set_rtol PosInf c = Inl InvalidTolerance
   \<and> set_atol NegInf c = Inl InvalidTolerance \<and> set_rtol NegInf c = Inl InvalidTolerance"
  by (simp add: set_atol_def set_rtol_def float_less_def float_greater_def)

text \<open>
  C8, at the input NaN: a float outside \<open>[0, MAX_TOL]\<close>, for which the claim
  reports \<open>InvalidTolerance\<close>. In the source both guards, \<open>atol < 0\<close> and
  \<open>atol > max_tol\<close>, are false on NaN, so each setter succeeds and stores NaN in the
  shared setting.
\<close>

theorem tolerance_setters_nan:
  "\<not> float_less NaN 0
   \<and> \<not> float_greater NaN MAX_TOL
   \<and> set_atol NaN c = Inr (c\<lparr>ATOL := NaN\<rparr>)
   \<and> set_rtol NaN c = Inr (c\<lparr>RTOL := NaN\<rparr>)
   \<and> set_atol NaN c \<noteq> Inl InvalidTolerance
   \<and> set_rtol NaN c \<noteq> Inl InvalidTolerance"
  by (simp add: set_atol_def set_rtol_def float_less_def float_greater_def)

subsection \<open>The smallest matrix\<close>

text \<open>
  C10. The 1x1 input \<open>[[1.0]]\<close> is accepted: the side length 1 passes the
  power-of-two check as \<open>2^0\<close>, the single row passes the remaining checks, and the
  instance built has zero qubits. This holds for every threshold that is not negative,
  the default one included, and for the older class.
\<close>

theorem one_by_one_accepted:
  "int_log2 (length [1::real]) = Inr 0
   \<and> (0 \<le> atol \<longrightarrow>
        check_probabilities [[1]] atol = Inr ()
        \<and> ReadoutError_init [[1]] atol = Inr \<lparr>probabilities = [[1]], number_of_qubits = 0\<rparr>)
   \<and> ReadoutError_init [[1]] ATOL_DEFAULT = Inr \<lparr>probabilities = [[1]], number_of_qubits = 0\<rparr>
   \<and> ReadoutError_init_aer [[1]] = Inr \<lparr>probabilities = [[1]], number_of_qubits = 0\<rparr>"
  by (simp add: int_log2_def check_probabilities_def check_vec_def py_sum_def
      ReadoutError_init_def ReadoutError_init_aer_def qubits_from_mat_def ATOL_DEFAULT_def)

theorem one_by_one_accepted_witness:
  "(0::real) \<le> 1 / 10 ^ 8
   \<and> ReadoutError_init [[1]] (1 / 10 ^ 8) = Inr \<lparr>probabilities = [[1]], number_of_qubits = 0\<rparr>"
  using one_by_one_accepted [of "1 / 10 ^ 8"] by simp

subsection \<open>Serialisation\<close>

text \<open>
  C1, as stated: \<open>as_dict\<close> returns a record whose type field is the string
  \<open>"readout_error"\<close>. It fails on the identity of one qubit, in both classes: the
  field holds \<open>"roerror"\<close>.
\<close>

theorem as_dict_type_counterexample:
  "ReadoutError_init [[1, 0], [0, 1]] ATOL_DEFAULT =
     Inr \<lparr>probabilities = [[1, 0], [0, 1]], number_of_qubits = 1\<rparr>
   \<and> type (as_dict \<lparr>probabilities = [[1, 0], [0, 1]], number_of_qubits = 1\<rparr>) \<noteq> ''readout_error''
   \<and> type (as_dict_aer \<lparr>probabilities = [[1, 0], [0, 1]], number_of_qubits = 1\<rparr>) \<noteq> ''readout_error''"

  by (simp add: ReadoutError_init_def check_probabilities_def int_log2_def check_vec_def
      py_sum_def qubits_from_mat_def ATOL_DEFAULT_def as_dict_def as_dict_aer_def)

text \<open>
  C1, amended: for every instance, \<open>as_dict\<close> returns the record whose type field is
  the fixed string \<open>"roerror"\<close>, whose operations field is the one-element list
  \<open>["measure"]\<close> and whose probabilities field is the stored matrix, rows and entries
  in the order stored; for an instance that the constructor built, that is the matrix
  handed to the constructor. The same holds in the older class.
\<close>

theorem as_dict_record:
  "as_dict self =
     \<lparr>type = ''roerror'', operations = [''measure''], dict_probabilities = probabilities self\<rparr>
   \<and> as_dict_aer self =
     \<lparr>type = ''roerror'', operations = [''measure''], dict_probabilities = probabilities self\<rparr>
   \<and> (ReadoutError_init probs atol = Inr self \<longrightarrow> dict_probabilities (as_dict self) = probs)
   \<and> (ReadoutError_init_aer probs = Inr self \<longrightarrow> dict_probabilities (as_dict_aer self) = probs)"
  by (auto simp: as_dict_def as_dict_aer_def ReadoutError_init_def ReadoutError_init_aer_def
      split: sum.splits)

theorem as_dict_record_witness:
  "ReadoutError_init [[9 / 10, 1 / 10], [1 / 5, 4 / 5]] ATOL_DEFAULT =
     Inr \<lparr>probabilities = [[9 / 10, 1 / 10], [1 / 5, 4 / 5]], number_of_qubits = 1\<rparr>
   \<and> ReadoutError_init_aer [[9 / 10, 1 / 10], [1 / 5, 4 / 5]] =
     Inr \<lparr>probabilities = [[9 / 10, 1 / 10], [1 / 5, 4 / 5]], number_of_qubits = 1\<rparr>
   \<and> as_dict \<lparr>probabilities = [[9 / 10, 1 / 10], [1 / 5, 4 / 5]], number_of_qubits = 1\<rparr> =
     \<lparr>type = ''roerror'', operations = [''measure''],
      dict_probabilities = [[9 / 10, 1 / 10], [1 / 5, 4 / 5]]\<rparr>"
  using as_dict_record [of "\<lparr>probabilities = [[9 / 10, 1 / 10], [1 / 5, 4 / 5]], number_of_qubits = 1\<rparr>"
      "[[9 / 10, 1 / 10], [1 / 5, 4 / 5]]" ATOL_DEFAULT]

  by (simp add: ReadoutError_init_def ReadoutError_init_aer_def check_probabilities_def int_log2_def check_vec_def
      py_sum_def qubits_from_mat_def ATOL_DEFAULT_def)

subsection \<open>Power\<close>

lemma power_loop_snoc:
  "power_loop (Suc k) self ret = then_compose self (power_loop k self ret)"
proof (induction k arbitrary: ret)
  case 0
  then show ?case by (simp add: then_compose_def split: sum.splits)
next
  case (Suc k)
  show ?case
  proof (cases "compose ret (IsReadoutError self) False")
    case (Inl e)
    then show ?thesis by (simp add: then_compose_def)
  next
    case (Inr ret')
    have "power_loop (Suc (Suc k)) self ret = power_loop (Suc k) self ret'"
      using Inr by simp
    also have "\<dots> = then_compose self (power_loop k self ret')"
      by (rule Suc.IH)
    also have "power_loop k self ret' = power_loop (Suc k) self ret"
      using Inr by simp
    finally show ?thesis .
  qed
qed

text \<open>
  C5. \<open>power\<close> fails with \<open>InvalidExponent\<close> for an exponent that is not an
  \<open>int\<close> and for every \<open>int\<close> below 1, so for 0 and -1; \<open>power(1)\<close> returns the
  instance itself; \<open>power(2)\<close> is \<open>compose(self)\<close> with \<open>front=False\<close>; and each
  further unit of the exponent composes what has been accumulated with \<open>self\<close> once
  more, a failure of an earlier round being the failure of the whole.
\<close>

theorem power_spec:
  "power self (PyFloat x) = Inl InvalidExponent
   \<and> (n < 1 \<longrightarrow> power self (PyInt n) = Inl InvalidExponent)
   \<and> power self (PyInt 0) = Inl InvalidExponent
   \<and> power self (PyInt (- 1)) = Inl InvalidExponent
   \<and> power self (PyInt 1) = Inr self
   \<and> power self (PyInt 2) = compose self (IsReadoutError self) False
   \<and> (1 \<le> n \<longrightarrow> power self (PyInt (n + 1)) = then_compose self (power self (PyInt n)))"
proof -
  have two: "nat (2 - 1) = Suc 0" by simp
  have step: "power self (PyInt (n + 1)) = then_compose self (power self (PyInt n))" if "1 \<le> n"
  proof -
    have e: "nat (n + 1 - 1) = Suc (nat (n - 1))" using that by simp
    have "power self (PyInt (n + 1)) = power_loop (Suc (nat (n - 1))) self (copy self)"
      using that e by (simp add: power_def del: power_loop.simps)
    also have "\<dots> = then_compose self (power_loop (nat (n - 1)) self (copy self))"
      by (rule power_loop_snoc)
    also have "power_loop (nat (n - 1)) self (copy self) = power self (PyInt n)"
      using that by (simp add: power_def)
    finally show ?thesis .
  qed
  show ?thesis
    using step by (simp add: power_def copy_def two split: sum.splits)
qed

theorem power_spec_witness:
  "(-3::int) < 1
   \<and> power \<lparr>probabilities = [[1, 0], [0, 1]], number_of_qubits = 1\<rparr> (PyInt (- 3)) = Inl InvalidExponent
   \<and> (1::int) \<le> 1
   \<and> power \<lparr>probabilities = [[1, 0], [0, 1]], number_of_qubits = 1\<rparr> (PyInt 2) =
       Inr \<lparr>probabilities = [[1, 0], [0, 1]], number_of_qubits = 1\<rparr>"
  using power_spec [of "\<lparr>probabilities = [[1, 0], [0, 1]], number_of_qubits = 1\<rparr>" 0 "- 3"]
    power_spec [of "\<lparr>probabilities = [[1, 0], [0, 1]], number_of_qubits = 1\<rparr>" 0 1]
  by (simp add: then_compose_def compose_def coerce_def np_dot_def np_shape_def
      ReadoutError_init_def check_probabilities_def int_log2_def check_vec_def
      py_sum_def qubits_from_mat_def ATOL_DEFAULT_def upt_rec)

subsection \<open>The relative tolerance\<close>

lemma call_method_rtol_indep:
  "\<not> reads_rtol x \<Longrightarrow> ATOL c1 = ATOL c2 \<Longrightarrow>
   fst (call_method c1 x) = fst (call_method c2 x)
   \<and> ATOL (snd (call_method c1 x)) = ATOL (snd (call_method c2 x))"
  by (cases x) (auto simp: reads_rtol_def set_atol_def set_rtol_def split: option.splits)

lemma run_rtol_indep:
  "\<forall>x \<in> set xs. \<not> reads_rtol x \<Longrightarrow> ATOL c1 = ATOL c2 \<Longrightarrow> run c1 xs = run c2 xs"
proof (induction xs arbitrary: c1 c2)
  case Nil
  then show ?case by simp
next
  case (Cons x xs)
  from Cons.prems have a: "\<not> reads_rtol x" and b: "\<forall>y \<in> set xs. \<not> reads_rtol y" by simp_all
  from call_method_rtol_indep [OF a Cons.prems(2)]
  have f: "fst (call_method c1 x) = fst (call_method c2 x)"
    and s: "ATOL (snd (call_method c1 x)) = ATOL (snd (call_method c2 x))" by simp_all
  have "run (snd (call_method c1 x)) xs = run (snd (call_method c2 x)) xs"
    by (rule Cons.IH [OF b s])
  with f show ?case by (simp add: case_prod_beta)
qed

text \<open>
  C9. The value of \<open>RTOL\<close> influences no outcome: from two class states that differ
  in \<open>RTOL\<close> only, construction, \<open>compose\<close>, \<open>tensor\<close>, \<open>expand\<close>,
  \<open>power\<close>, \<open>ideal\<close> and \<open>as_dict\<close> give the same outcome on the same
  arguments, and so does every sequence of calls that does not ask for \<open>rtol\<close>
  itself, setters included.
\<close>

theorem rtol_never_read:
  "fst (call_method (c\<lparr>RTOL := r1\<rparr>) (Create probs atol)) = fst (call_method (c\<lparr>RTOL := r2\<rparr>) (Create probs atol))
   \<and> fst (call_method (c\<lparr>RTOL := r1\<rparr>) (Compose self other front)) = fst (call_method (c\<lparr>RTOL := r2\<rparr>) (Compose self other front))
   \<and> fst (call_method (c\<lparr>RTOL := r1\<rparr>) (Tensor self other)) = fst (call_method (c\<lparr>RTOL := r2\<rparr>) (Tensor self other))
   \<and> fst (call_method (c\<lparr>RTOL := r1\<rparr>) (Expand self other)) = fst (call_method (c\<lparr>RTOL := r2\<rparr>) (Expand self other))
   \<and> fst (call_method (c\<lparr>RTOL := r1\<rparr>) (Power self n)) = fst (call_method (c\<lparr>RTOL := r2\<rparr>) (Power self n))
   \<and> fst (call_method (c\<lparr>RTOL := r1\<rparr>) (Ideal self)) = fst (call_method (c\<lparr>RTOL := r2\<rparr>) (Ideal self))
   \<and> fst (call_method (c\<lparr>RTOL := r1\<rparr>) (AsDict self)) = fst (call_method (c\<lparr>RTOL := r2\<rparr>) (AsDict self))
   \<and> ((\<forall>x \<in> set xs. \<not> reads_rtol x) \<longrightarrow> run (c\<lparr>RTOL := r1\<rparr>) xs = run (c\<lparr>RTOL := r2\<rparr>) xs)"
proof -
  have "run (c\<lparr>RTOL := r1\<rparr>) xs = run (c\<lparr>RTOL := r2\<rparr>) xs" if "\<forall>x \<in> set xs. \<not> reads_rtol x"
    using run_rtol_indep [OF that, of "c\<lparr>RTOL := r1\<rparr>" "c\<lparr>RTOL := r2\<rparr>"] by simp
  moreover have "fst (call_method (c\<lparr>RTOL := r1\<rparr>) x) = fst (call_method (c\<lparr>RTOL := r2\<rparr>) x)"
    if "\<not> reads_rtol x" for x
    using call_method_rtol_indep [OF that, of "c\<lparr>RTOL := r1\<rparr>" "c\<lparr>RTOL := r2\<rparr>"] by simp
  ultimately show ?thesis by (simp add: reads_rtol_def)
qed

theorem rtol_never_read_witness:
  "\<not> reads_rtol (SetRtol (Finite (1 / 10 ^ 6)))
   \<and> \<not> reads_rtol (Create [[1, 0], [0, 1]] None)
   \<and> \<not> reads_rtol (Ideal \<lparr>probabilities = [[1, 0], [0, 1]], number_of_qubits = 1\<rparr>)
   \<and> \<not> reads_rtol GetAtol
   \<and> run (cls_init\<lparr>RTOL := Finite 0\<rparr>) [SetRtol (Finite (1 / 10 ^ 6)), Create [[1, 0], [0, 1]] None, Ideal \<lparr>probabilities = [[1, 0], [0, 1]], number_of_qubits = 1\<rparr>, GetAtol]
     = run (cls_init\<lparr>RTOL := Finite (1 / 10 ^ 4)\<rparr>) [SetRtol (Finite (1 / 10 ^ 6)), Create [[1, 0], [0, 1]] None, Ideal \<lparr>probabilities = [[1, 0], [0, 1]], number_of_qubits = 1\<rparr>, GetAtol]"
  using rtol_never_read [where c = cls_init and ?r1.0 = "Finite 0" and ?r2.0 = "Finite (1 / 10 ^ 4)" and xs = "[SetRtol (Finite (1 / 10 ^ 6)), Create [[1, 0], [0, 1]] None, Ideal \<lparr>probabilities = [[1, 0], [0, 1]], number_of_qubits = 1\<rparr>, GetAtol]"]
  by (simp add: reads_rtol_def)

subsection \<open>Order of the validation checks\<close>

text \<open>
  The checks in the order of the source: no rows; a first row of length 0, on which
  the logarithm fails; a length that is no power of two; a number of rows other than
  that length; then the rows in turn, the first row that fails a check deciding the
  error, and within a row its length before its sum before its signs.
\<close>

lemma pow2_floor_log2: "2 ^ floor_log2 n = n \<longleftrightarrow> (\<exists>k. n = 2 ^ k)"
proof
  assume "2 ^ floor_log2 n = n"
  then show "\<exists>k. n = 2 ^ k" by (metis)
next
  assume "\<exists>k. n = 2 ^ k"
  then show "2 ^ floor_log2 n = n" by auto
qed

lemma check_vec_Inr:
  "check_vec n t v = Inr u \<longleftrightarrow>
     length v = n \<and> \<bar>py_sum v - 1\<bar> \<le> t \<and> (\<forall>x \<in> set v. 0 \<le> x)"
  by (auto simp: check_vec_def filter_empty_conv not_less)

lemma check_vec_NotNormalized:
  "check_vec n t v = Inl NotNormalized \<longleftrightarrow> length v = n \<and> \<bar>py_sum v - 1\<bar> > t"
  by (auto simp: check_vec_def)

lemma check_vecs_first_failure:
  "check_vecs n t rows = Inl e \<longleftrightarrow>
     (\<exists>i<length rows. check_vec n t (rows ! i) = Inl e
        \<and> (\<forall>j<i. check_vec n t (rows ! j) = Inr ()))"
proof (induction rows)
  case Nil
  then show ?case by simp
next
  case (Cons v rows)
  show ?case
  proof (cases "check_vec n t v")
    case (Inl e')
    show ?thesis
    proof
      assume "check_vecs n t (v # rows) = Inl e"
      with Inl have "e' = e" by simp
      with Inl have "check_vec n t ((v # rows) ! 0) = Inl e" by simp
      then show "\<exists>i<length (v # rows). check_vec n t ((v # rows) ! i) = Inl e
        \<and> (\<forall>j<i. check_vec n t ((v # rows) ! j) = Inr ())"
        by (intro exI [of _ 0]) simp
    next
      assume "\<exists>i<length (v # rows). check_vec n t ((v # rows) ! i) = Inl e
        \<and> (\<forall>j<i. check_vec n t ((v # rows) ! j) = Inr ())"
      then obtain i where i: "i < length (v # rows)" "check_vec n t ((v # rows) ! i) = Inl e"
        "\<forall>j<i. check_vec n t ((v # rows) ! j) = Inr ()" by blast
      have "i = 0"
      proof (rule ccontr)
        assume "i \<noteq> 0"
        then have "check_vec n t ((v # rows) ! 0) = Inr ()" using i(3) by blast
        with Inl show False by simp
      qed
      with i(2) Inl show "check_vecs n t (v # rows) = Inl e" by simp
    qed
  next
    case (Inr u)
    then have step: "check_vecs n t (v # rows) = check_vecs n t rows" by simp
    have "(\<exists>i<length (v # rows). check_vec n t ((v # rows) ! i) = Inl e
        \<and> (\<forall>j<i. check_vec n t ((v # rows) ! j) = Inr ()))
      \<longleftrightarrow> (\<exists>i<length rows. check_vec n t (rows ! i) = Inl e
        \<and> (\<forall>j<i. check_vec n t (rows ! j) = Inr ()))" (is "?L \<longleftrightarrow> ?R")
    proof
      assume ?L
      then obtain i where i: "i < length (v # rows)" "check_vec n t ((v # rows) ! i) = Inl e"
        "\<forall>j<i. check_vec n t ((v # rows) ! j) = Inr ()" by blast
      from i(2) Inr have "i \<noteq> 0" by (cases i) auto
      then obtain i' where i': "i = Suc i'" by (cases i) auto
      have "\<forall>j<i'. check_vec n t (rows ! j) = Inr ()"
      proof (intro allI impI)
        fix j assume "j < i'"
        then have "Suc j < i" using i' by simp
        with i(3) have "check_vec n t ((v # rows) ! Suc j) = Inr ()" by blast
        then show "check_vec n t (rows ! j) = Inr ()" by simp
      qed
      with i i' show ?R by (intro exI [of _ i']) simp
    next
      assume ?R
      then obtain i where i: "i < length rows" "check_vec n t (rows ! i) = Inl e"
        "\<forall>j<i. check_vec n t (rows ! j) = Inr ()" by blast
      have "\<forall>j<Suc i. check_vec n t ((v # rows) ! j) = Inr ()"
      proof (intro allI impI)
        fix j assume "j < Suc i"
        then show "check_vec n t ((v # rows) ! j) = Inr ()"
          using Inr i(3) by (cases j) auto
      qed
      with i show ?L by (intro exI [of _ "Suc i"]) simp
    qed
    with step Cons.IH show ?thesis by simp
  qed
qed

lemma check_probabilities_order:
  "check_probabilities probs t =
     (if probs = [] then Inl EmptyInput
      else if length (hd probs) = 0 then Inl OverflowError
      else if \<not> (\<exists>k. length (hd probs) = 2 ^ k) then Inl InvalidDimension
      else if length probs \<noteq> length (hd probs) then Inl InvalidDimension
      else check_vecs (length (hd probs)) t probs)"
  by (cases probs) (simp_all add: check_probabilities_def int_log2_def pow2_floor_log2 Let_def)

text \<open>
  C3, at the input \<open>[[]]\<close>: one row, of length \<open>N = 0\<close>, which is no power of two.
  The claim reports \<open>InvalidDimension\<close>. The source computes
  \<open>int(np.log2(0))\<close> before its own test of \<open>N\<close>, and the conversion of
  \<open>-inf\<close> raises \<open>OverflowError\<close>, in both classes.
\<close>

theorem check_probabilities_empty_row:
  "check_probabilities [[]] threshold = Inl OverflowError
   \<and> ReadoutError_init [[]] ATOL_DEFAULT = Inl OverflowError
   \<and> ReadoutError_init_aer [[]] = Inl OverflowError
   \<and> check_probabilities [[]] threshold \<noteq> Inl InvalidDimension
   \<and> (\<forall>k. length ([] :: real list) \<noteq> 2 ^ k)"
  by (simp add: check_probabilities_def int_log2_def ReadoutError_init_def ReadoutError_init_aer_def)

subsection \<open>The absolute tolerance\<close>

lemma call_method_atol_indep:
  "\<not> reads_atol x \<Longrightarrow> RTOL c1 = RTOL c2 \<Longrightarrow>
   fst (call_method c1 x) = fst (call_method c2 x)
   \<and> RTOL (snd (call_method c1 x)) = RTOL (snd (call_method c2 x))"
  by (cases x) (auto simp: reads_atol_def set_atol_def set_rtol_def split: option.splits)

lemma run_atol_indep:
  "\<forall>x \<in> set xs. \<not> reads_atol x \<Longrightarrow> RTOL c1 = RTOL c2 \<Longrightarrow> run c1 xs = run c2 xs"
proof (induction xs arbitrary: c1 c2)
  case Nil
  then show ?case by simp
next
  case (Cons x xs)
  from Cons.prems have a: "\<not> reads_atol x" and b: "\<forall>y \<in> set xs. \<not> reads_atol y" by simp_all
  from call_method_atol_indep [OF a Cons.prems(2)]
  have f: "fst (call_method c1 x) = fst (call_method c2 x)"
    and s: "RTOL (snd (call_method c1 x)) = RTOL (snd (call_method c2 x))" by simp_all
  have "run (snd (call_method c1 x)) xs = run (snd (call_method c2 x)) xs"
    by (rule Cons.IH [OF b s])
  with f show ?case by (simp add: case_prod_beta)
qed

text \<open>
  C4, as stated: after \<open>atol\<close> has been set to \<open>t\<close>, a construction without an
  explicit tolerance fails with \<open>NotNormalized\<close> exactly when the sum of some row
  is further than \<open>t\<close> from 1. With \<open>t = 1e-4\<close> the matrix
  \<open>[[1.00001, 0], [0, 1]]\<close> has no such row and is rejected all the same.
\<close>

theorem atol_setting_counterexample:
  "set_atol (Finite (1 / 10 ^ 4)) cls_init =
     Inr \<lparr>ATOL = Finite (1 / 10 ^ 4), RTOL = Finite RTOL_DEFAULT\<rparr>
   \<and> fst (call_method \<lparr>ATOL = Finite (1 / 10 ^ 4), RTOL = Finite RTOL_DEFAULT\<rparr>
            (Create [[1 + 1 / 10 ^ 5, 0], [0, 1]] None)) = Inl NotNormalized
   \<and> \<not> \<bar>py_sum [1 + 1 / 10 ^ 5, 0] - 1\<bar> > 1 / 10 ^ 4
   \<and> \<not> \<bar>py_sum [0, 1] - 1\<bar> > 1 / 10 ^ 4"
  by (simp add: set_atol_def float_less_def float_greater_def MAX_TOL_def cls_init_def
      returning_def ReadoutError_init_def check_probabilities_def int_log2_def check_vec_def
      py_sum_def ATOL_DEFAULT_def)

text \<open>
  C4, amended: setting \<open>atol\<close> to a value the setter accepts only stores the value in
  the class attribute. It re-validates no instance and does not change the tolerance
  of the normalisation check of any later construction: a construction without an
  explicit tolerance has the same outcome after the set as before it, the outcome of
  the construction with the fixed default \<open>1e-8\<close> as its tolerance, and every
  sequence of calls that does not ask for \<open>atol\<close> itself has the same outcomes after
  the set as before it.
\<close>

theorem atol_setting_not_used:
  "set_atol v c = Inr c' \<longrightarrow>
     c' = c\<lparr>ATOL := v\<rparr>
     \<and> call_method c (SetAtol v) = (Inr RetNone, c')
     \<and> fst (call_method c' (Create probs None)) = fst (call_method c (Create probs None))
     \<and> fst (call_method c' (Create probs None)) =
         fst (call_method c' (Create probs (Some (1 / 10 ^ 8))))
     \<and> snd (call_method c' (Create probs None)) = c'
     \<and> ((\<forall>x \<in> set xs. \<not> reads_atol x) \<longrightarrow> run c' xs = run c xs)"
proof (intro impI conjI)
  assume s: "set_atol v c = Inr c'"
  then show c': "c' = c\<lparr>ATOL := v\<rparr>" by (auto simp: set_atol_def split: if_splits)
  from s show "call_method c (SetAtol v) = (Inr RetNone, c')" by simp
  show "fst (call_method c' (Create probs None)) = fst (call_method c (Create probs None))"
    by simp
  show "fst (call_method c' (Create probs None)) =
      fst (call_method c' (Create probs (Some (1 / 10 ^ 8))))"
    by (simp add: ATOL_DEFAULT_def)
  show "snd (call_method c' (Create probs None)) = c'" by simp
  assume "\<forall>x \<in> set xs. \<not> reads_atol x"
  then show "run c' xs = run c xs"
    using c' by (intro run_atol_indep) simp_all
qed

theorem atol_setting_not_used_witness:
  "set_atol (Finite (1 / 10 ^ 4)) cls_init =
     Inr \<lparr>ATOL = Finite (1 / 10 ^ 4), RTOL = Finite RTOL_DEFAULT\<rparr>
   \<and> \<not> reads_atol (Create [[1 + 1 / 10 ^ 5, 0], [0, 1]] None)
   \<and> \<not> reads_atol (Create [[1, 0], [0, 1]] None)
   \<and> fst (call_method cls_init (Create [[1 + 1 / 10 ^ 5, 0], [0, 1]] None)) = Inl NotNormalized
   \<and> fst (call_method \<lparr>ATOL = Finite (1 / 10 ^ 4), RTOL = Finite RTOL_DEFAULT\<rparr>
            (Create [[1 + 1 / 10 ^ 5, 0], [0, 1]] None)) = Inl NotNormalized
   \<and> run \<lparr>ATOL = Finite (1 / 10 ^ 4), RTOL = Finite RTOL_DEFAULT\<rparr>
         [Create [[1 + 1 / 10 ^ 5, 0], [0, 1]] None, Create [[1, 0], [0, 1]] None] =
       run cls_init [Create [[1 + 1 / 10 ^ 5, 0], [0, 1]] None, Create [[1, 0], [0, 1]] None]"
proof -
  let ?m = "[[1 + 1 / 10 ^ 5, 0], [0, 1 :: real]]"
  let ?xs = "[Create ?m None, Create [[1, 0], [0, 1]] None]"
  let ?c = "\<lparr>ATOL = Finite (1 / 10 ^ 4), RTOL = Finite RTOL_DEFAULT\<rparr>"
  have s: "set_atol (Finite (1 / 10 ^ 4)) cls_init = Inr ?c"
    by (simp add: set_atol_def float_less_def float_greater_def MAX_TOL_def cls_init_def)
  have r: "\<forall>x \<in> set ?xs. \<not> reads_atol x" by (simp add: reads_atol_def)
  have before: "fst (call_method cls_init (Create ?m None)) = Inl NotNormalized"
    by (simp add: returning_def ReadoutError_init_def check_probabilities_def int_log2_def
        check_vec_def py_sum_def ATOL_DEFAULT_def)
  note t = atol_setting_not_used [of "Finite (1 / 10 ^ 4)" cls_init ?c ?m ?xs]
  from t s have "fst (call_method ?c (Create ?m None)) = fst (call_method cls_init (Create ?m None))"
    by blast
  with before have after: "fst (call_method ?c (Create ?m None)) = Inl NotNormalized" by simp
  from t s r have "run ?c ?xs = run cls_init ?xs" by blast
  with s before after show ?thesis by (simp add: reads_atol_def)
qed

subsection \<open>What the constructor guarantees\<close>

lemma check_vecs_Inr:
  "check_vecs n t rows = Inr u \<longleftrightarrow> (\<forall>row \<in> set rows. check_vec n t row = Inr ())"
  by (induction rows) (auto split: sum.splits)

lemma init_instance:
  assumes "ReadoutError_init probs atol = Inr self"
  shows "probabilities self = probs"
    and "square_of_side (2 ^ number_of_qubits self) probs"
    and "\<forall>row \<in> set probs. \<bar>sum_list row - 1\<bar> \<le> atol \<and> (\<forall>x \<in> set row. 0 \<le> x)"
proof -
  from assms have cp: "check_probabilities probs atol = Inr ()"
    and self: "self = \<lparr>probabilities = probs, number_of_qubits = qubits_from_mat probs\<rparr>"
    by (auto simp: ReadoutError_init_def split: sum.splits)
  from self show "probabilities self = probs" by simp
  from cp have ne: "probs \<noteq> []" by (auto simp: check_probabilities_order)
  from cp ne have nz: "length (hd probs) \<noteq> 0"
    by (auto simp: check_probabilities_order split: if_splits)
  from cp ne nz obtain k where k: "length (hd probs) = 2 ^ k"
    by (auto simp: check_probabilities_order split: if_splits)
  from cp ne nz k have len: "length probs = 2 ^ k"
    and rows: "check_vecs (2 ^ k) atol probs = Inr ()"
    by (auto simp: check_probabilities_order split: if_splits)
  have q: "number_of_qubits self = k"
    using self ne k by (cases probs) (simp_all add: qubits_from_mat_def)
  from rows have each: "\<forall>row \<in> set probs. check_vec (2 ^ k) atol row = Inr ()"
    by (simp add: check_vecs_Inr)
  then show "square_of_side (2 ^ number_of_qubits self) probs"
    using len q by (simp add: square_of_side_def check_vec_Inr)
  from each show "\<forall>row \<in> set probs. \<bar>sum_list row - 1\<bar> \<le> atol \<and> (\<forall>x \<in> set row. 0 \<le> x)"
    by (simp add: check_vec_Inr py_sum_sum_list)
qed

subsection \<open>Identity test\<close>

lemma rint_eq_0: "rint y = 0 \<longleftrightarrow> \<bar>y\<bar> \<le> 1 / 2"
proof -
  have fl: "of_int \<lfloor>y\<rfloor> \<le> y" "y < of_int \<lfloor>y\<rfloor> + 1" by linarith+
  show ?thesis
  proof
    assume r: "rint y = 0"
    consider "\<lfloor>y\<rfloor> = 0" | "\<lfloor>y\<rfloor> = - 1" | "\<lfloor>y\<rfloor> \<noteq> 0 \<and> \<lfloor>y\<rfloor> \<noteq> - 1" by blast
    then show "\<bar>y\<bar> \<le> 1 / 2"
    proof cases
      case 1
      with r fl show ?thesis by (auto simp: rint_def Let_def split: if_splits)
    next
      case 2
      with r fl show ?thesis by (auto simp: rint_def Let_def split: if_splits)
    next
      case 3
      with r show ?thesis by (auto simp: rint_def Let_def split: if_splits)
    qed
  next
    assume a: "\<bar>y\<bar> \<le> 1 / 2"
    then have "\<lfloor>y\<rfloor> = 0 \<or> \<lfloor>y\<rfloor> = - 1" by linarith
    then show "rint y = 0"
    proof
      assume "\<lfloor>y\<rfloor> = 0"
      with a show ?thesis by (auto simp: rint_def Let_def)
    next
      assume "\<lfloor>y\<rfloor> = - 1"
      with a show ?thesis by (auto simp: rint_def Let_def)
    qed
  qed
qed

lemma py_round_eq_0: "py_round x n = 0 \<longleftrightarrow> \<bar>x\<bar> * 10 ^ n \<le> 1 / 2"
  by (simp add: py_round_def rint_eq_0 abs_mult)

lemma sum_list_map_nth: "sum_list (map f xs) = (\<Sum>i<length xs. f (xs ! i))"
proof -
  have "sum_list (map f xs) = (\<Sum>i = 0..<length (map f xs). map f xs ! i)"
    by (rule sum_list_sum_nth)
  also have "\<dots> = (\<Sum>i<length xs. f (xs ! i))"
    by (simp add: atLeast0LessThan)
  finally show ?thesis .
qed

lemma sum_list_map_concat:
  "sum_list (map f (concat xss)) = sum_list (map (\<lambda>r. sum_list (map f r)) xss)"
  by (induction xss) simp_all

lemma norm_fro_sub_eye:
  assumes "square_of_side n m"
  shows "norm_fro (np_sub m (np_eye n)) = euclid_dist_to_identity n m"
proof -
  let ?d = "np_sub m (np_eye n)"
  have len: "length m = n" and rows: "\<And>i. i < n \<Longrightarrow> length (m ! i) = n"
    using assms by (auto simp: square_of_side_def)
  have ld: "length ?d = n" using len by (simp add: np_sub_def np_eye_def)
  have row: "?d ! i = map (\<lambda>j. m ! i ! j - (if i = j then 1 else 0)) [0..<n]" if "i < n" for i
  proof (rule nth_equalityI)
    show "length (?d ! i) = length (map (\<lambda>j. m ! i ! j - (if i = j then 1 else 0)) [0..<n])"
      using that len rows by (simp add: np_sub_def np_eye_def)
    fix j assume "j < length (?d ! i)"
    then have "j < n" using that len rows by (simp add: np_sub_def np_eye_def)
    then show "?d ! i ! j = map (\<lambda>j. m ! i ! j - (if i = j then 1 else 0)) [0..<n] ! j"
      using that len rows by (simp add: np_sub_def np_eye_def)
  qed
  have "sum_list (map (\<lambda>x. x * x) (concat ?d)) = sum_list (map (\<lambda>r. sum_list (map (\<lambda>x. x * x) r)) ?d)"
    by (rule sum_list_map_concat)
  also have "\<dots> = (\<Sum>i<n. sum_list (map (\<lambda>x. x * x) (?d ! i)))"
    using ld by (simp add: sum_list_map_nth)
  also have "\<dots> = (\<Sum>i<n. \<Sum>j<n. (m ! i ! j - (if i = j then 1 else 0))\<^sup>2)"
  proof (rule sum.cong)
    fix i assume "i \<in> {..<n}"
    then have i: "i < n" by simp
    show "sum_list (map (\<lambda>x. x * x) (?d ! i)) = (\<Sum>j<n. (m ! i ! j - (if i = j then 1 else 0))\<^sup>2)"
      by (simp add: row [OF i] sum_list_map_nth power2_eq_square comp_def)
  qed simp
  finally show ?thesis by (simp add: norm_fro_def euclid_dist_to_identity_def)
qed

text \<open>
  C7. For an instance built by the constructor, \<open>ideal\<close> holds exactly when the
  Euclidean norm of the matrix minus the identity of its size, rounded to 12 decimal
  digits, is zero; as the norm is not negative, that is when the norm is at most
  \<open>0.5e-12\<close>. The identity of one qubit is built with one qubit and is ideal;
  \<open>[[0.9, 0.1], [0.2, 0.8]]\<close> is built and is not ideal.
\<close>

theorem ideal_spec:
  "(ReadoutError_init probs atol = Inr self \<longrightarrow>
      (ideal self \<longleftrightarrow>
         py_round (euclid_dist_to_identity (2 ^ number_of_qubits self) probs) 12 = 0)
      \<and> (ideal self \<longleftrightarrow>
         euclid_dist_to_identity (2 ^ number_of_qubits self) probs \<le> 1 / (2 * 10 ^ 12)))
   \<and> ReadoutError_init [[1, 0], [0, 1]] ATOL_DEFAULT =
       Inr \<lparr>probabilities = [[1, 0], [0, 1]], number_of_qubits = 1\<rparr>
   \<and> ideal \<lparr>probabilities = [[1, 0], [0, 1]], number_of_qubits = 1\<rparr>
   \<and> ReadoutError_init [[9 / 10, 1 / 10], [2 / 10, 8 / 10]] ATOL_DEFAULT =
       Inr \<lparr>probabilities = [[9 / 10, 1 / 10], [2 / 10, 8 / 10]], number_of_qubits = 1\<rparr>
   \<and> \<not> ideal \<lparr>probabilities = [[9 / 10, 1 / 10], [2 / 10, 8 / 10]], number_of_qubits = 1\<rparr>"
proof (intro conjI impI)
  assume a: "ReadoutError_init probs atol = Inr self"
  have e: "norm_fro (np_sub (probabilities self) (np_eye (2 ^ number_of_qubits self)))
      = euclid_dist_to_identity (2 ^ number_of_qubits self) probs"
    using init_instance(1,2) [OF a] by (simp add: norm_fro_sub_eye)
  show r: "ideal self \<longleftrightarrow> py_round (euclid_dist_to_identity (2 ^ number_of_qubits self) probs) 12 = 0"
    by (simp add: ideal_def Let_def e)
  have "0 \<le> euclid_dist_to_identity (2 ^ number_of_qubits self) probs"
    by (simp add: euclid_dist_to_identity_def sum_nonneg)
  then show "ideal self \<longleftrightarrow> euclid_dist_to_identity (2 ^ number_of_qubits self) probs \<le> 1 / (2 * 10 ^ 12)"
    unfolding r py_round_eq_0 by (simp add: field_simps)
next
  show "ReadoutError_init [[1, 0], [0, 1]] ATOL_DEFAULT =
       Inr \<lparr>probabilities = [[1, 0], [0, 1]], number_of_qubits = 1\<rparr>"
    by (simp add: ReadoutError_init_def check_probabilities_def int_log2_def check_vec_def
        py_sum_def qubits_from_mat_def ATOL_DEFAULT_def)
  show "ideal \<lparr>probabilities = [[1, 0], [0, 1]], number_of_qubits = 1\<rparr>"
    by (simp add: ideal_def np_eye_def np_sub_def norm_fro_def py_round_eq_0 upt_rec)
  show "ReadoutError_init [[9 / 10, 1 / 10], [2 / 10, 8 / 10]] ATOL_DEFAULT =
       Inr \<lparr>probabilities = [[9 / 10, 1 / 10], [2 / 10, 8 / 10]], number_of_qubits = 1\<rparr>"
    by (simp add: ReadoutError_init_def check_probabilities_def int_log2_def check_vec_def
        py_sum_def qubits_from_mat_def ATOL_DEFAULT_def)
  have "(1 / 10)\<^sup>2 \<le> (1 / 10 :: real)" by (simp add: power2_eq_square)
  then have "1 / 10 \<le> sqrt (1 / 10)" by (rule real_le_rsqrt)
  then have "\<not> \<bar>sqrt (1 / 10)\<bar> * 10 ^ 12 \<le> 1 / 2" by simp
  moreover have "norm_fro (np_sub [[9 / 10, 1 / 10], [2 / 10, 8 / 10]] (np_eye (2 ^ 1))) = sqrt (1 / 10)"
    by (simp add: np_eye_def np_sub_def norm_fro_def upt_rec)
  ultimately show "\<not> ideal \<lparr>probabilities = [[9 / 10, 1 / 10], [2 / 10, 8 / 10]], number_of_qubits = 1\<rparr>"
    by (simp add: ideal_def Let_def py_round_eq_0)
qed

theorem ideal_spec_witness:
  "ReadoutError_init [[1, 0], [0, 1]] ATOL_DEFAULT =
     Inr \<lparr>probabilities = [[1, 0], [0, 1]], number_of_qubits = 1\<rparr>
   \<and> ideal \<lparr>probabilities = [[1, 0], [0, 1]], number_of_qubits = 1\<rparr>
   \<and> py_round (euclid_dist_to_identity (2 ^ 1) [[1, 0], [0, 1]]) 12 = 0
   \<and> euclid_dist_to_identity (2 ^ 1) [[1, 0], [0, 1]] \<le> 1 / (2 * 10 ^ 12)"
proof -
  let ?r = "\<lparr>probabilities = [[1, 0], [0, 1]], number_of_qubits = 1\<rparr>"
  note t = ideal_spec [of "[[1, 0], [0, 1]]" ATOL_DEFAULT ?r]
  from t have i: "ReadoutError_init [[1, 0], [0, 1]] ATOL_DEFAULT = Inr ?r" and d: "ideal ?r"
    by blast+
  from t i d have "py_round (euclid_dist_to_identity (2 ^ number_of_qubits ?r) [[1, 0], [0, 1]]) 12 = 0"
    and "euclid_dist_to_identity (2 ^ number_of_qubits ?r) [[1, 0], [0, 1]] \<le> 1 / (2 * 10 ^ 12)"
    by blast+
  with i d show ?thesis by simp
qed

subsection \<open>Construction from a square matrix without negative entries\<close>

lemma check_vecs_cases:
  assumes "\<forall>row \<in> set rows. length row = n \<and> (\<forall>x \<in> set row. 0 \<le> x)"
  shows "check_vecs n t rows =
           (if \<forall>row \<in> set rows. \<bar>sum_list row - 1\<bar> \<le> t then Inr () else Inl NotNormalized)"
  using assms
proof (induction rows)
  case Nil
  then show ?case by simp
next
  case (Cons v rows)
  then have v: "length v = n" "\<forall>x \<in> set v. 0 \<le> x" by simp_all
  have cv: "check_vec n t v = (if \<bar>sum_list v - 1\<bar> \<le> t then Inr () else Inl NotNormalized)"
    using v by (auto simp: check_vec_def py_sum_sum_list filter_empty_conv not_less)
  from Cons have "check_vecs n t rows =
           (if \<forall>row \<in> set rows. \<bar>sum_list row - 1\<bar> \<le> t then Inr () else Inl NotNormalized)"
    by simp
  with cv show ?case by simp
qed

lemma init_stochastic_square:
  assumes sq: "square_of_side (2 ^ k) m"
    and nn: "\<forall>row \<in> set m. \<forall>x \<in> set row. 0 \<le> x"
  shows "ReadoutError_init m t =
           (if \<forall>row \<in> set m. \<bar>sum_list row - 1\<bar> \<le> t
            then Inr \<lparr>probabilities = m, number_of_qubits = k\<rparr> else Inl NotNormalized)"
proof -
  from sq have len: "length m = 2 ^ k" and rows: "\<forall>row \<in> set m. length row = 2 ^ k"
    by (simp_all add: square_of_side_def)
  from len have ne: "m \<noteq> []" by auto
  then have hd: "length (hd m) = 2 ^ k" using rows by simp
  have cp: "check_probabilities m t = check_vecs (2 ^ k) t m"
    using ne hd len by (auto simp: check_probabilities_order)
  have q: "qubits_from_mat m = k"
    using ne hd by (cases m) (simp_all add: qubits_from_mat_def)
  have "check_vecs (2 ^ k) t m =
           (if \<forall>row \<in> set m. \<bar>sum_list row - 1\<bar> \<le> t then Inr () else Inl NotNormalized)"
    using rows nn by (intro check_vecs_cases) simp
  then show ?thesis by (simp add: ReadoutError_init_def cp q)
qed

lemma near_one_mult:
  fixes x y :: real
  assumes "\<bar>x - 1\<bar> \<le> s" "\<bar>y - 1\<bar> \<le> t"
  shows "\<bar>x * y - 1\<bar> \<le> s + t + s * t"
proof -
  define p where "p = (x - 1) * (y - 1)"
  define q where "q = s * t"
  have pq: "\<bar>p\<bar> \<le> q"
    unfolding p_def q_def abs_mult using assms by (intro mult_mono) auto
  have "x * y - 1 = p + (x - 1) + (y - 1)" by (simp add: p_def algebra_simps)
  then have "\<bar>x * y - 1\<bar> = \<bar>p + (x - 1) + (y - 1)\<bar>" by simp
  also have "\<dots> \<le> \<bar>p\<bar> + \<bar>x - 1\<bar> + \<bar>y - 1\<bar>" by linarith
  also have "\<dots> \<le> s + t + q" using pq assms by linarith
  finally show ?thesis by (simp add: q_def)
qed

subsection \<open>Tensor product\<close>

lemma np_kron_rows: "np_kron a b = map (\<lambda>(ra, rb). kron_row ra rb) (List.product a b)"
  by (simp add: np_kron_def kron_row_def product_concat_map map_concat comp_def)

lemma kron_row_product: "kron_row ra rb = map (\<lambda>(x, y). x * y) (List.product ra rb)"
  by (simp add: kron_row_def product_concat_map map_concat comp_def)

lemma length_kron_row [simp]: "length (kron_row ra rb) = length ra * length rb"
  by (simp add: kron_row_product)

lemma length_np_kron [simp]: "length (np_kron a b) = length a * length b"
  by (simp add: np_kron_rows)

lemma set_np_kron: "set (np_kron a b) = {kron_row ra rb | ra rb. ra \<in> set a \<and> rb \<in> set b}"
  by (auto simp: np_kron_rows)

lemma sum_list_kron_row: "sum_list (kron_row ra rb) = sum_list ra * sum_list rb"
  by (induction ra) (simp_all add: kron_row_def sum_list_const_mult distrib_right)

lemma kron_row_nonneg:
  "\<forall>x \<in> set ra. 0 \<le> x \<Longrightarrow> \<forall>y \<in> set rb. 0 \<le> y \<Longrightarrow> \<forall>z \<in> set (kron_row ra rb). (0::real) \<le> z"
  by (auto simp: kron_row_product)

lemma kron_row_nth:
  "j < length ra * length rb \<Longrightarrow>
   kron_row ra rb ! j = ra ! (j div length rb) * rb ! (j mod length rb)"
  by (simp add: kron_row_product product_nth)

lemma np_kron_nth:
  "i < length a * length b \<Longrightarrow> np_kron a b ! i = kron_row (a ! (i div length b)) (b ! (i mod length b))"
  by (simp add: np_kron_rows product_nth)

lemma np_kron_kronecker:
  assumes a: "square_of_side n a" and b: "square_of_side m b"
  shows "np_kron a b = kronecker a b"
proof (rule nth_equalityI)
  have la: "length a = n" and lb: "length b = m" using a b by (simp_all add: square_of_side_def)
  show "length (np_kron a b) = length (kronecker a b)"
    by (simp add: kronecker_def Let_def)
  fix i assume "i < length (np_kron a b)"
  then have i: "i < n * m" using la lb by simp
  then have m0: "0 < m" by (cases m) auto
  have "i div m < n" using i m0 by (simp add: less_mult_imp_div_less)
  then have ra: "length (a ! (i div m)) = n" using a la by (simp add: square_of_side_def)
  have "i mod m < m" using m0 by simp
  then have rb: "length (b ! (i mod m)) = m" using b lb by (simp add: square_of_side_def)
  show "np_kron a b ! i = kronecker a b ! i"
  proof (rule nth_equalityI)
    show "length (np_kron a b ! i) = length (kronecker a b ! i)"
      using i la lb ra rb by (simp add: np_kron_nth kronecker_def Let_def)
    fix j assume "j < length (np_kron a b ! i)"
    then have j: "j < n * m" using i la lb ra rb by (simp add: np_kron_nth)
    show "np_kron a b ! i ! j = kronecker a b ! i ! j"
      using i j la lb ra rb by (simp add: np_kron_nth kron_row_nth kronecker_def Let_def)
  qed
qed

lemma kron_square:
  assumes a: "square_of_side n a" and b: "square_of_side m b"
  shows "square_of_side (n * m) (np_kron a b)"
  using a b by (auto simp: square_of_side_def set_np_kron)

text \<open>
  The outcome of \<open>tensor\<close> and \<open>expand\<close> on instances built by the constructor.
  The last part is a fact of exact arithmetic: the re-validation passes whenever the
  tolerances \<open>ta\<close>, \<open>tb\<close> within which the rows of the operands sum to 1 satisfy
  \<open>ta + tb + ta * tb \<le> 1e-8\<close>.
\<close>

lemma tensor_expand_outcome:
  "ReadoutError_init pa ta = Inr A \<and> ReadoutError_init pb tb = Inr B \<longrightarrow>
     tensor A (IsReadoutError B) = ReadoutError_init (kronecker pa pb) ATOL_DEFAULT
     \<and> expand A (IsReadoutError B) = ReadoutError_init (kronecker pb pa) ATOL_DEFAULT
     \<and> tensor A (IsReadoutError B) = expand B (IsReadoutError A)
     \<and> (tensor A (IsReadoutError B) = Inl NotNormalized
        \<or> tensor A (IsReadoutError B) =
            Inr \<lparr>probabilities = kronecker pa pb,
                 number_of_qubits = number_of_qubits A + number_of_qubits B\<rparr>)
     \<and> (expand A (IsReadoutError B) = Inl NotNormalized
        \<or> expand A (IsReadoutError B) =
            Inr \<lparr>probabilities = kronecker pb pa,
                 number_of_qubits = number_of_qubits A + number_of_qubits B\<rparr>)
     \<and> (ta + tb + ta * tb \<le> ATOL_DEFAULT \<longrightarrow>
          tensor A (IsReadoutError B) =
            Inr \<lparr>probabilities = kronecker pa pb,
                 number_of_qubits = number_of_qubits A + number_of_qubits B\<rparr>
          \<and> expand A (IsReadoutError B) =
            Inr \<lparr>probabilities = kronecker pb pa,
                 number_of_qubits = number_of_qubits A + number_of_qubits B\<rparr>)"
proof (intro impI)
  assume h: "ReadoutError_init pa ta = Inr A \<and> ReadoutError_init pb tb = Inr B"
  let ?na = "number_of_qubits A" and ?nb = "number_of_qubits B"
  from h have A: "probabilities A = pa" "square_of_side (2 ^ ?na) pa"
    "\<forall>row \<in> set pa. \<bar>sum_list row - 1\<bar> \<le> ta \<and> (\<forall>x \<in> set row. 0 \<le> x)"
    using init_instance [of pa ta A] by simp_all
  from h have B: "probabilities B = pb" "square_of_side (2 ^ ?nb) pb"
    "\<forall>row \<in> set pb. \<bar>sum_list row - 1\<bar> \<le> tb \<and> (\<forall>x \<in> set row. 0 \<le> x)"
    using init_instance [of pb tb B] by simp_all
  have kab: "np_kron pa pb = kronecker pa pb" using A(2) B(2) by (rule np_kron_kronecker)
  have kba: "np_kron pb pa = kronecker pb pa" using B(2) A(2) by (rule np_kron_kronecker)
  have t: "tensor A (IsReadoutError B) = ReadoutError_init (kronecker pa pb) ATOL_DEFAULT"
    by (simp add: tensor_def tensor_product_def coerce_def A(1) B(1) kab)
  have e: "expand A (IsReadoutError B) = ReadoutError_init (kronecker pb pa) ATOL_DEFAULT"
    by (simp add: expand_def tensor_product_def coerce_def A(1) B(1) kba)
  have te: "tensor A (IsReadoutError B) = expand B (IsReadoutError A)"
    by (simp add: tensor_def expand_def tensor_product_def coerce_def)
  have sqab: "square_of_side (2 ^ (?na + ?nb)) (kronecker pa pb)"
    using kron_square [OF A(2) B(2)] by (simp add: kab power_add)
  have sqba: "square_of_side (2 ^ (?na + ?nb)) (kronecker pb pa)"
    using kron_square [OF B(2) A(2)] by (simp add: kba power_add mult.commute)
  have nnab: "\<forall>row \<in> set (kronecker pa pb). \<forall>x \<in> set row. 0 \<le> x"
    unfolding kab [symmetric] set_np_kron using A(3) B(3) kron_row_nonneg by blast
  have nnba: "\<forall>row \<in> set (kronecker pb pa). \<forall>x \<in> set row. 0 \<le> x"
    unfolding kba [symmetric] set_np_kron using A(3) B(3) kron_row_nonneg by blast
  note iab = init_stochastic_square [OF sqab nnab, of ATOL_DEFAULT]
  note iba = init_stochastic_square [OF sqba nnba, of ATOL_DEFAULT]
  have sab: "\<forall>row \<in> set (kronecker pa pb). \<bar>sum_list row - 1\<bar> \<le> ATOL_DEFAULT"
    if "ta + tb + ta * tb \<le> ATOL_DEFAULT"
  proof
    fix row assume "row \<in> set (kronecker pa pb)"
    then obtain ra rb where r: "row = kron_row ra rb" "ra \<in> set pa" "rb \<in> set pb"
      unfolding kab [symmetric] set_np_kron by blast
    have "\<bar>sum_list ra * sum_list rb - 1\<bar> \<le> ta + tb + ta * tb"
      using A(3) B(3) r by (intro near_one_mult) auto
    with that show "\<bar>sum_list row - 1\<bar> \<le> ATOL_DEFAULT" by (simp add: r(1) sum_list_kron_row)
  qed
  have sba: "\<forall>row \<in> set (kronecker pb pa). \<bar>sum_list row - 1\<bar> \<le> ATOL_DEFAULT"
    if "ta + tb + ta * tb \<le> ATOL_DEFAULT"
  proof
    fix row assume "row \<in> set (kronecker pb pa)"
    then obtain ra rb where r: "row = kron_row rb ra" "ra \<in> set pa" "rb \<in> set pb"
      unfolding kba [symmetric] set_np_kron by blast
    have "\<bar>sum_list rb * sum_list ra - 1\<bar> \<le> tb + ta + tb * ta"
      using A(3) B(3) r by (intro near_one_mult) auto
    with that show "\<bar>sum_list row - 1\<bar> \<le> ATOL_DEFAULT"
      by (simp add: r(1) sum_list_kron_row algebra_simps)
  qed
  show "tensor A (IsReadoutError B) = ReadoutError_init (kronecker pa pb) ATOL_DEFAULT
     \<and> expand A (IsReadoutError B) = ReadoutError_init (kronecker pb pa) ATOL_DEFAULT
     \<and> tensor A (IsReadoutError B) = expand B (IsReadoutError A)
     \<and> (tensor A (IsReadoutError B) = Inl NotNormalized
        \<or> tensor A (IsReadoutError B) =
            Inr \<lparr>probabilities = kronecker pa pb,
                 number_of_qubits = number_of_qubits A + number_of_qubits B\<rparr>)
     \<and> (expand A (IsReadoutError B) = Inl NotNormalized
        \<or> expand A (IsReadoutError B) =
            Inr \<lparr>probabilities = kronecker pb pa,
                 number_of_qubits = number_of_qubits A + number_of_qubits B\<rparr>)
     \<and> (ta + tb + ta * tb \<le> ATOL_DEFAULT \<longrightarrow>
          tensor A (IsReadoutError B) =
            Inr \<lparr>probabilities = kronecker pa pb,
                 number_of_qubits = number_of_qubits A + number_of_qubits B\<rparr>
          \<and> expand A (IsReadoutError B) =
            Inr \<lparr>probabilities = kronecker pb pa,
                 number_of_qubits = number_of_qubits A + number_of_qubits B\<rparr>)"
    using t e te iab iba sab sba by (simp split: if_splits)
qed

text \<open>
  C6, as stated: for every pair of valid instances \<open>A\<close> and \<open>B\<close>, \<open>A.tensor(B)\<close>
  yields the Kronecker product of their matrices with the summed qubit number. It
  fails for \<open>[[1.00001, 0], [0, 1]]\<close>, an instance built with the tolerance
  \<open>1e-4\<close>, and the zero-qubit \<open>[[1]]\<close>: the product is re-validated at the default
  tolerance \<open>1e-8\<close> and rejected, by \<open>tensor\<close> and by \<open>expand\<close>. It fails as
  well for \<open>[[1 + 1e-8, 0], [0, 1]]\<close>, built at the default tolerance, with itself.
\<close>

theorem tensor_expand_counterexample:
  "ReadoutError_init [[1 + 1 / 10 ^ 5, 0], [0, 1]] (1 / 10 ^ 4) = Inr \<lparr>probabilities = [[1 + 1 / 10 ^ 5, 0], [0, 1]], number_of_qubits = 1\<rparr>
   \<and> ReadoutError_init [[1]] ATOL_DEFAULT = Inr \<lparr>probabilities = [[1]], number_of_qubits = 0\<rparr>
   \<and> tensor \<lparr>probabilities = [[1 + 1 / 10 ^ 5, 0], [0, 1]], number_of_qubits = 1\<rparr>
        (IsReadoutError \<lparr>probabilities = [[1]], number_of_qubits = 0\<rparr>) = Inl NotNormalized
   \<and> expand \<lparr>probabilities = [[1 + 1 / 10 ^ 5, 0], [0, 1]], number_of_qubits = 1\<rparr>
        (IsReadoutError \<lparr>probabilities = [[1]], number_of_qubits = 0\<rparr>) = Inl NotNormalized
   \<and> ReadoutError_init [[1 + 1 / 10 ^ 8, 0], [0, 1]] ATOL_DEFAULT = Inr \<lparr>probabilities = [[1 + 1 / 10 ^ 8, 0], [0, 1]], number_of_qubits = 1\<rparr>
   \<and> tensor \<lparr>probabilities = [[1 + 1 / 10 ^ 8, 0], [0, 1]], number_of_qubits = 1\<rparr>
        (IsReadoutError \<lparr>probabilities = [[1 + 1 / 10 ^ 8, 0], [0, 1]], number_of_qubits = 1\<rparr>) = Inl NotNormalized"
  by (simp add: tensor_def expand_def tensor_product_def coerce_def np_kron_def
      ReadoutError_init_def check_probabilities_def int_log2_def check_vec_def
      py_sum_def qubits_from_mat_def ATOL_DEFAULT_def)

text \<open>
  C6, amended: for instances \<open>A\<close> and \<open>B\<close> built by the constructor,
  \<open>A.tensor(B)\<close> has the outcome of the construction, at the default tolerance
  \<open>1e-8\<close>, from the Kronecker product of the matrix of \<open>A\<close> with the matrix of
  \<open>B\<close> (the qubits of \<open>A\<close> the more significant block), and \<open>A.expand(B)\<close> the
  outcome of the one from the product in the other order. Either call fails with
  \<open>NotNormalized\<close> when its product does not pass that re-validation, and with no
  other error; otherwise it returns an instance whose matrix is the product and whose
  qubit number is the sum of the qubit numbers of the operands. \<open>A.tensor(B)\<close> and
  \<open>B.expand(A)\<close> have the same outcome.
\<close>

theorem tensor_expand_kronecker:
  "ReadoutError_init pa ta = Inr A \<and> ReadoutError_init pb tb = Inr B \<longrightarrow>
     tensor A (IsReadoutError B) = ReadoutError_init (kronecker pa pb) ATOL_DEFAULT
     \<and> expand A (IsReadoutError B) = ReadoutError_init (kronecker pb pa) ATOL_DEFAULT
     \<and> tensor A (IsReadoutError B) = expand B (IsReadoutError A)
     \<and> (tensor A (IsReadoutError B) = Inl NotNormalized
        \<or> tensor A (IsReadoutError B) =
            Inr \<lparr>probabilities = kronecker pa pb,
                 number_of_qubits = number_of_qubits A + number_of_qubits B\<rparr>)
     \<and> (expand A (IsReadoutError B) = Inl NotNormalized
        \<or> expand A (IsReadoutError B) =
            Inr \<lparr>probabilities = kronecker pb pa,
                 number_of_qubits = number_of_qubits A + number_of_qubits B\<rparr>)"
  using tensor_expand_outcome [of pa ta A pb tb B] by blast

theorem tensor_expand_kronecker_witness:
  "ReadoutError_init [[9 / 10, 1 / 10], [1 / 5, 4 / 5]] ATOL_DEFAULT =
     Inr \<lparr>probabilities = [[9 / 10, 1 / 10], [1 / 5, 4 / 5]], number_of_qubits = 1\<rparr>
   \<and> ReadoutError_init [[1, 0], [0, 1]] ATOL_DEFAULT =
     Inr \<lparr>probabilities = [[1, 0], [0, 1]], number_of_qubits = 1\<rparr>
   \<and> tensor \<lparr>probabilities = [[9 / 10, 1 / 10], [1 / 5, 4 / 5]], number_of_qubits = 1\<rparr>
         (IsReadoutError \<lparr>probabilities = [[1, 0], [0, 1]], number_of_qubits = 1\<rparr>) =
       Inr \<lparr>probabilities =
              [[9 / 10, 0, 1 / 10, 0], [0, 9 / 10, 0, 1 / 10],
               [1 / 5, 0, 4 / 5, 0], [0, 1 / 5, 0, 4 / 5]],
            number_of_qubits = 2\<rparr>
   \<and> expand \<lparr>probabilities = [[9 / 10, 1 / 10], [1 / 5, 4 / 5]], number_of_qubits = 1\<rparr>
         (IsReadoutError \<lparr>probabilities = [[1, 0], [0, 1]], number_of_qubits = 1\<rparr>) =
       Inr \<lparr>probabilities =
              [[9 / 10, 1 / 10, 0, 0], [1 / 5, 4 / 5, 0, 0],
               [0, 0, 9 / 10, 1 / 10], [0, 0, 1 / 5, 4 / 5]],
            number_of_qubits = 2\<rparr>"
proof -
  let ?pa = "[[9 / 10, 1 / 10], [1 / 5, 4 / 5 :: real]]" and ?pb = "[[1, 0], [0, 1 :: real]]"
  let ?A = "\<lparr>probabilities = ?pa, number_of_qubits = 1\<rparr>"
  let ?B = "\<lparr>probabilities = ?pb, number_of_qubits = 1\<rparr>"
  let ?kab = "[[9 / 10, 0, 1 / 10, 0], [0, 9 / 10, 0, 1 / 10],
               [1 / 5, 0, 4 / 5, 0], [0, 1 / 5, 0, 4 / 5 :: real]]"
  let ?kba = "[[9 / 10, 1 / 10, 0, 0], [1 / 5, 4 / 5, 0, 0],
               [0, 0, 9 / 10, 1 / 10], [0, 0, 1 / 5, 4 / 5 :: real]]"
  have ia: "ReadoutError_init ?pa ATOL_DEFAULT = Inr ?A"
    by (simp add: ReadoutError_init_def check_probabilities_def int_log2_def check_vec_def
      py_sum_def qubits_from_mat_def ATOL_DEFAULT_def)
  have ib: "ReadoutError_init ?pb ATOL_DEFAULT = Inr ?B"
    by (simp add: ReadoutError_init_def check_probabilities_def int_log2_def check_vec_def
      py_sum_def qubits_from_mat_def ATOL_DEFAULT_def)
  have kab: "kronecker ?pa ?pb = ?kab" by code_simp
  have kba: "kronecker ?pb ?pa = ?kba" by code_simp
  have iab: "ReadoutError_init ?kab ATOL_DEFAULT = Inr \<lparr>probabilities = ?kab, number_of_qubits = 2\<rparr>"
    by (simp add: ReadoutError_init_def check_probabilities_def int_log2_def check_vec_def
      py_sum_def qubits_from_mat_def ATOL_DEFAULT_def)
  have iba: "ReadoutError_init ?kba ATOL_DEFAULT = Inr \<lparr>probabilities = ?kba, number_of_qubits = 2\<rparr>"
    by (simp add: ReadoutError_init_def check_probabilities_def int_log2_def check_vec_def
      py_sum_def qubits_from_mat_def ATOL_DEFAULT_def)
  note t = tensor_expand_kronecker [of ?pa ATOL_DEFAULT ?A ?pb ATOL_DEFAULT ?B]
  from t ia ib have "tensor ?A (IsReadoutError ?B) = ReadoutError_init (kronecker ?pa ?pb) ATOL_DEFAULT"
    and "expand ?A (IsReadoutError ?B) = ReadoutError_init (kronecker ?pb ?pa) ATOL_DEFAULT"
    by blast+
  then have "tensor ?A (IsReadoutError ?B) = Inr \<lparr>probabilities = ?kab, number_of_qubits = 2\<rparr>"
    and "expand ?A (IsReadoutError ?B) = Inr \<lparr>probabilities = ?kba, number_of_qubits = 2\<rparr>"
    by (simp_all only: kab kba iab iba)
  with ia ib show ?thesis by simp
qed

subsection \<open>Composition\<close>

lemma np_shape_square: "square_of_side n a \<Longrightarrow> np_shape a = (n, n)"
  by (cases a) (auto simp: square_of_side_def np_shape_def)

lemma sum_list_map_upt: "sum_list (map f [0..<n]) = (\<Sum>k<n. f k)"
  by (simp add: interv_sum_list_conv_sum_set_nat atLeast0LessThan)

lemma np_dot_mat_prod:
  assumes b: "square_of_side n b" and a: "square_of_side n a"
  shows "np_dot b a = Inr (mat_prod b a)"
proof -
  have lb: "length b = n" and la: "length a = n"
    using a b by (simp_all add: square_of_side_def)
  have "map (\<lambda>row. map (\<lambda>j. sum_list (map (\<lambda>k. row ! k * a ! k ! j) [0..<n])) [0..<n]) b
      = map (\<lambda>i. map (\<lambda>j. \<Sum>k<n. b ! i ! k * a ! k ! j) [0..<n]) [0..<n]"
  proof (rule nth_equalityI)
    show "length (map (\<lambda>row. map (\<lambda>j. sum_list (map (\<lambda>k. row ! k * a ! k ! j) [0..<n])) [0..<n]) b)
        = length (map (\<lambda>i. map (\<lambda>j. \<Sum>k<n. b ! i ! k * a ! k ! j) [0..<n]) [0..<n])"
      using lb by simp
    fix i
    assume "i < length (map (\<lambda>row. map (\<lambda>j. sum_list (map (\<lambda>k. row ! k * a ! k ! j) [0..<n])) [0..<n]) b)"
    then have "i < n" using lb by simp
    then show "map (\<lambda>row. map (\<lambda>j. sum_list (map (\<lambda>k. row ! k * a ! k ! j) [0..<n])) [0..<n]) b ! i
        = map (\<lambda>i. map (\<lambda>j. \<Sum>k<n. b ! i ! k * a ! k ! j) [0..<n]) [0..<n] ! i"
      using lb by (simp add: sum_list_map_upt)
  qed
  then show ?thesis
    using lb la by (simp add: np_dot_def np_shape_square [OF a] np_shape_square [OF b] mat_prod_def)
qed

lemma mat_prod_square: "length b = n \<Longrightarrow> square_of_side n (mat_prod b a)"
  by (auto simp: square_of_side_def mat_prod_def)

lemma square_nth_nonneg:
  assumes "square_of_side n m" "\<forall>row \<in> set m. \<forall>x \<in> set row. (0::real) \<le> x" "i < n" "j < n"
  shows "0 \<le> m ! i ! j"
proof -
  from assms(1,3) have "m ! i \<in> set m" "length (m ! i) = n"
    by (auto simp: square_of_side_def)
  with assms(2,4) show ?thesis by (metis nth_mem)
qed

lemma square_row_sum:
  assumes "square_of_side n m" "i < n"
  shows "(\<Sum>j<n. m ! i ! j) = sum_list (m ! i)"
proof -
  from assms have "length (m ! i) = n" by (auto simp: square_of_side_def)
  then show ?thesis by (simp add: sum_list_sum_nth atLeast0LessThan)
qed

lemma mat_prod_nonneg:
  assumes b: "square_of_side n b" and a: "square_of_side n a"
    and nb: "\<forall>row \<in> set b. \<forall>x \<in> set row. 0 \<le> x"
    and na: "\<forall>row \<in> set a. \<forall>x \<in> set row. 0 \<le> x"
  shows "\<forall>row \<in> set (mat_prod b a). \<forall>x \<in> set row. 0 \<le> x"
proof -
  have lb: "length b = n" using b by (simp add: square_of_side_def)
  have "0 \<le> (\<Sum>k<n. b ! i ! k * a ! k ! j)" if "i < n" "j < n" for i j
    using that square_nth_nonneg [OF b nb] square_nth_nonneg [OF a na]
    by (intro sum_nonneg mult_nonneg_nonneg) simp_all
  then show ?thesis using lb by (auto simp: mat_prod_def)
qed

lemma mat_prod_row_sum:
  assumes b: "square_of_side n b" and a: "square_of_side n a" and i: "i < n"
  shows "sum_list (mat_prod b a ! i) = (\<Sum>k<n. b ! i ! k * sum_list (a ! k))"
proof -
  have lb: "length b = n" using b by (simp add: square_of_side_def)
  have "sum_list (mat_prod b a ! i) = (\<Sum>j<n. \<Sum>k<n. b ! i ! k * a ! k ! j)"
    using i lb by (simp add: mat_prod_def sum_list_map_upt)
  also have "\<dots> = (\<Sum>k<n. \<Sum>j<n. b ! i ! k * a ! k ! j)"
    by (rule sum.swap)
  also have "\<dots> = (\<Sum>k<n. b ! i ! k * (\<Sum>j<n. a ! k ! j))"
    by (simp add: sum_distrib_left)
  also have "\<dots> = (\<Sum>k<n. b ! i ! k * sum_list (a ! k))"
    using square_row_sum [OF a] by simp
  finally show ?thesis .
qed

lemma mat_prod_near_one:
  assumes b: "square_of_side n b" and a: "square_of_side n a"
    and nb: "\<forall>row \<in> set b. \<forall>x \<in> set row. 0 \<le> x"
    and sb: "\<forall>row \<in> set b. \<bar>sum_list row - 1\<bar> \<le> tb"
    and sa: "\<forall>row \<in> set a. \<bar>sum_list row - 1\<bar> \<le> ta"
  shows "\<forall>row \<in> set (mat_prod b a). \<bar>sum_list row - 1\<bar> \<le> ta + tb + ta * tb"
proof
  fix row assume "row \<in> set (mat_prod b a)"
  have lb: "length b = n" and la: "length a = n"
    using a b by (simp_all add: square_of_side_def)
  have "length (mat_prod b a) = n" using lb by (simp add: mat_prod_def)
  with \<open>row \<in> set (mat_prod b a)\<close> obtain i where i: "i < n" "row = mat_prod b a ! i"
    by (metis in_set_conv_nth)
  have bi: "b ! i \<in> set b" using i lb by simp
  define w where "w k = b ! i ! k" for k
  define s where "s k = sum_list (a ! k)" for k
  have w0: "0 \<le> w k" if "k < n" for k
    using square_nth_nonneg [OF b nb i(1) that] by (simp add: w_def)
  have sk: "\<bar>s k - 1\<bar> \<le> ta" if "k < n" for k
    using sa la that by (simp add: s_def)
  have wsum: "(\<Sum>k<n. w k) = sum_list (b ! i)"
    using square_row_sum [OF b i(1)] by (simp add: w_def)
  then have wb: "\<bar>(\<Sum>k<n. w k) - 1\<bar> \<le> tb" using sb bi by simp
  have ta0: "0 \<le> ta" using sk [of 0] i(1) by linarith
  have "(\<Sum>k<n. w k * s k) - 1 = (\<Sum>k<n. w k * (s k - 1)) + ((\<Sum>k<n. w k) - 1)"
    by (simp add: algebra_simps sum_subtractf)
  moreover have "\<bar>\<Sum>k<n. w k * (s k - 1)\<bar> \<le> (\<Sum>k<n. w k * ta)"
  proof -
    have "\<bar>\<Sum>k<n. w k * (s k - 1)\<bar> \<le> (\<Sum>k<n. \<bar>w k * (s k - 1)\<bar>)" by (rule sum_abs)
    also have "\<dots> \<le> (\<Sum>k<n. w k * ta)"
    proof (rule sum_mono)
      fix k assume "k \<in> {..<n}"
      then have k: "k < n" by simp
      have "\<bar>w k * (s k - 1)\<bar> = w k * \<bar>s k - 1\<bar>" using w0 [OF k] by (simp add: abs_mult)
      also have "\<dots> \<le> w k * ta" using w0 [OF k] sk [OF k] by (rule mult_left_mono [rotated])
      finally show "\<bar>w k * (s k - 1)\<bar> \<le> w k * ta" .
    qed
    finally show ?thesis .
  qed
  moreover have "(\<Sum>k<n. w k * ta) = (\<Sum>k<n. w k) * ta" by (simp add: sum_distrib_right)
  moreover have "(\<Sum>k<n. w k) * ta \<le> (1 + tb) * ta"
    using wb ta0 by (intro mult_right_mono) linarith+
  ultimately have "\<bar>(\<Sum>k<n. w k * s k) - 1\<bar> \<le> (1 + tb) * ta + tb"
    using wb by linarith
  then show "\<bar>sum_list row - 1\<bar> \<le> ta + tb + ta * tb"
    using mat_prod_row_sum [OF b a i(1)] by (simp add: i(2) w_def s_def algebra_simps)
qed

text \<open>
  The outcome of \<open>compose\<close> on instances built by the constructor. The last part is
  a fact of exact arithmetic: the re-validation passes whenever the tolerances \<open>ta\<close>,
  \<open>tb\<close> within which the rows of the operands sum to 1 satisfy
  \<open>ta + tb + ta * tb \<le> 1e-8\<close>.
\<close>

lemma compose_outcome:
  "ReadoutError_init pa ta = Inr self \<and> ReadoutError_init pb tb = Inr other \<longrightarrow>
     (number_of_qubits other \<noteq> number_of_qubits self \<longrightarrow>
        compose self (IsReadoutError other) front = Inl DimensionMismatch)
     \<and> (number_of_qubits other = number_of_qubits self \<longrightarrow>
          compose self (IsReadoutError other) False = ReadoutError_init (mat_prod pb pa) ATOL_DEFAULT
          \<and> compose self (IsReadoutError other) True = ReadoutError_init (mat_prod pa pb) ATOL_DEFAULT
          \<and> (compose self (IsReadoutError other) False = Inl NotNormalized
             \<or> compose self (IsReadoutError other) False =
                 Inr \<lparr>probabilities = mat_prod pb pa, number_of_qubits = number_of_qubits self\<rparr>)
          \<and> (compose self (IsReadoutError other) True = Inl NotNormalized
             \<or> compose self (IsReadoutError other) True =
                 Inr \<lparr>probabilities = mat_prod pa pb, number_of_qubits = number_of_qubits self\<rparr>)
          \<and> (ta + tb + ta * tb \<le> ATOL_DEFAULT \<longrightarrow>
               compose self (IsReadoutError other) False =
                 Inr \<lparr>probabilities = mat_prod pb pa, number_of_qubits = number_of_qubits self\<rparr>
               \<and> compose self (IsReadoutError other) True =
                 Inr \<lparr>probabilities = mat_prod pa pb, number_of_qubits = number_of_qubits self\<rparr>))"
proof (intro impI conjI)
  assume h: "ReadoutError_init pa ta = Inr self \<and> ReadoutError_init pb tb = Inr other"
  assume "number_of_qubits other \<noteq> number_of_qubits self"
  then show "compose self (IsReadoutError other) front = Inl DimensionMismatch"
    by (auto simp: compose_def coerce_def)
next
  assume h: "ReadoutError_init pa ta = Inr self \<and> ReadoutError_init pb tb = Inr other"
  assume q: "number_of_qubits other = number_of_qubits self"
  let ?n = "number_of_qubits self"
  from h have A: "probabilities self = pa" "square_of_side (2 ^ ?n) pa"
    "\<forall>row \<in> set pa. \<bar>sum_list row - 1\<bar> \<le> ta \<and> (\<forall>x \<in> set row. 0 \<le> x)"
    using init_instance [of pa ta self] by simp_all
  from h q have B: "probabilities other = pb" "square_of_side (2 ^ ?n) pb"
    "\<forall>row \<in> set pb. \<bar>sum_list row - 1\<bar> \<le> tb \<and> (\<forall>x \<in> set row. 0 \<le> x)"
    using init_instance [of pb tb other] by simp_all
  have la: "length pa = 2 ^ ?n" and lb: "length pb = 2 ^ ?n"
    using A(2) B(2) by (simp_all add: square_of_side_def)
  show f: "compose self (IsReadoutError other) False = ReadoutError_init (mat_prod pb pa) ATOL_DEFAULT"
    using q by (simp add: compose_def coerce_def A(1) B(1) np_dot_mat_prod [OF B(2) A(2)])
  show t: "compose self (IsReadoutError other) True = ReadoutError_init (mat_prod pa pb) ATOL_DEFAULT"
    using q by (simp add: compose_def coerce_def A(1) B(1) np_dot_mat_prod [OF A(2) B(2)])
  have nnba: "\<forall>row \<in> set (mat_prod pb pa). \<forall>x \<in> set row. 0 \<le> x"
    using A(3) B(3) by (intro mat_prod_nonneg [OF B(2) A(2)]) simp_all
  have nnab: "\<forall>row \<in> set (mat_prod pa pb). \<forall>x \<in> set row. 0 \<le> x"
    using A(3) B(3) by (intro mat_prod_nonneg [OF A(2) B(2)]) simp_all
  note iba = init_stochastic_square [OF mat_prod_square [OF lb] nnba, of ATOL_DEFAULT]
  note iab = init_stochastic_square [OF mat_prod_square [OF la] nnab, of ATOL_DEFAULT]
  show "compose self (IsReadoutError other) False = Inl NotNormalized
      \<or> compose self (IsReadoutError other) False =
          Inr \<lparr>probabilities = mat_prod pb pa, number_of_qubits = number_of_qubits self\<rparr>"
    unfolding f iba by simp
  show "compose self (IsReadoutError other) True = Inl NotNormalized
      \<or> compose self (IsReadoutError other) True =
          Inr \<lparr>probabilities = mat_prod pa pb, number_of_qubits = number_of_qubits self\<rparr>"
    unfolding t iab by simp
  assume tol: "ta + tb + ta * tb \<le> ATOL_DEFAULT"
  have "\<forall>row \<in> set (mat_prod pb pa). \<bar>sum_list row - 1\<bar> \<le> ta + tb + ta * tb"
    using A(3) B(3) by (intro mat_prod_near_one [OF B(2) A(2)]) simp_all
  with tol have sba: "\<forall>row \<in> set (mat_prod pb pa). \<bar>sum_list row - 1\<bar> \<le> ATOL_DEFAULT"
    by fastforce
  have "\<forall>row \<in> set (mat_prod pa pb). \<bar>sum_list row - 1\<bar> \<le> tb + ta + tb * ta"
    using A(3) B(3) by (intro mat_prod_near_one [OF A(2) B(2)]) simp_all
  with tol have sab: "\<forall>row \<in> set (mat_prod pa pb). \<bar>sum_list row - 1\<bar> \<le> ATOL_DEFAULT"
    by (fastforce simp: algebra_simps)
  show "compose self (IsReadoutError other) False =
          Inr \<lparr>probabilities = mat_prod pb pa, number_of_qubits = number_of_qubits self\<rparr>"
    unfolding f iba using sba by simp
  show "compose self (IsReadoutError other) True =
          Inr \<lparr>probabilities = mat_prod pa pb, number_of_qubits = number_of_qubits self\<rparr>"
    unfolding t iab using sab by simp
qed

text \<open>
  C2, as stated: for every pair of valid instances with equal qubit numbers,
  \<open>compose\<close> yields the product of their matrices. It fails for
  \<open>[[1.00001, 0], [0, 1]]\<close>, an instance built with the tolerance \<open>1e-4\<close>, and the
  identity: the product is re-validated at the default tolerance \<open>1e-8\<close> and
  rejected, for either value of \<open>front\<close>. It fails as well for
  \<open>[[1 + 1e-8, 0], [0, 1]]\<close>, built at the default tolerance, composed with itself.
\<close>

theorem compose_product_counterexample:
  "ReadoutError_init [[1 + 1 / 10 ^ 5, 0], [0, 1]] (1 / 10 ^ 4) = Inr \<lparr>probabilities = [[1 + 1 / 10 ^ 5, 0], [0, 1]], number_of_qubits = 1\<rparr>
   \<and> ReadoutError_init [[1, 0], [0, 1]] ATOL_DEFAULT = Inr \<lparr>probabilities = [[1, 0], [0, 1]], number_of_qubits = 1\<rparr>
   \<and> number_of_qubits \<lparr>probabilities = [[1, 0], [0, 1]], number_of_qubits = 1\<rparr> =
       number_of_qubits \<lparr>probabilities = [[1 + 1 / 10 ^ 5, 0], [0, 1]], number_of_qubits = 1\<rparr>
   \<and> compose \<lparr>probabilities = [[1 + 1 / 10 ^ 5, 0], [0, 1]], number_of_qubits = 1\<rparr>
        (IsReadoutError \<lparr>probabilities = [[1, 0], [0, 1]], number_of_qubits = 1\<rparr>) False = Inl NotNormalized
   \<and> compose \<lparr>probabilities = [[1 + 1 / 10 ^ 5, 0], [0, 1]], number_of_qubits = 1\<rparr>
        (IsReadoutError \<lparr>probabilities = [[1, 0], [0, 1]], number_of_qubits = 1\<rparr>) True = Inl NotNormalized
   \<and> ReadoutError_init [[1 + 1 / 10 ^ 8, 0], [0, 1]] ATOL_DEFAULT = Inr \<lparr>probabilities = [[1 + 1 / 10 ^ 8, 0], [0, 1]], number_of_qubits = 1\<rparr>
   \<and> compose \<lparr>probabilities = [[1 + 1 / 10 ^ 8, 0], [0, 1]], number_of_qubits = 1\<rparr>
        (IsReadoutError \<lparr>probabilities = [[1 + 1 / 10 ^ 8, 0], [0, 1]], number_of_qubits = 1\<rparr>) False = Inl NotNormalized"
  by (simp add: compose_def coerce_def np_dot_def np_shape_def upt_rec
      ReadoutError_init_def check_probabilities_def int_log2_def check_vec_def
      py_sum_def qubits_from_mat_def ATOL_DEFAULT_def)

text \<open>
  C2, amended: for instances \<open>self\<close> and \<open>other\<close> built by the constructor, with
  matrices \<open>A\<close> and \<open>B\<close>: \<open>compose\<close> fails with \<open>DimensionMismatch\<close> whenever
  the qubit numbers differ, whatever \<open>front\<close> is. Otherwise it has the outcome of the
  construction, at the default tolerance \<open>1e-8\<close>, from \<open>B \<cdot> A\<close> when \<open>front\<close>
  is false and from \<open>A \<cdot> B\<close> when it is true: it fails with \<open>NotNormalized\<close> when
  the product does not pass that re-validation, and with no other error; otherwise it
  returns an instance whose matrix is the product and whose qubit number is that of
  the operands.
\<close>

theorem compose_product:
  "ReadoutError_init pa ta = Inr self \<and> ReadoutError_init pb tb = Inr other \<longrightarrow>
     (number_of_qubits other \<noteq> number_of_qubits self \<longrightarrow>
        compose self (IsReadoutError other) front = Inl DimensionMismatch)
     \<and> (number_of_qubits other = number_of_qubits self \<longrightarrow>
          compose self (IsReadoutError other) False = ReadoutError_init (mat_prod pb pa) ATOL_DEFAULT
          \<and> compose self (IsReadoutError other) True = ReadoutError_init (mat_prod pa pb) ATOL_DEFAULT
          \<and> (compose self (IsReadoutError other) False = Inl NotNormalized
             \<or> compose self (IsReadoutError other) False =
                 Inr \<lparr>probabilities = mat_prod pb pa, number_of_qubits = number_of_qubits self\<rparr>)
          \<and> (compose self (IsReadoutError other) True = Inl NotNormalized
             \<or> compose self (IsReadoutError other) True =
                 Inr \<lparr>probabilities = mat_prod pa pb, number_of_qubits = number_of_qubits self\<rparr>))"
  using compose_outcome [of pa ta self pb tb other front] by blast

theorem compose_product_witness:
  "ReadoutError_init [[9 / 10, 1 / 10], [1 / 5, 4 / 5]] ATOL_DEFAULT =
     Inr \<lparr>probabilities = [[9 / 10, 1 / 10], [1 / 5, 4 / 5]], number_of_qubits = 1\<rparr>
   \<and> ReadoutError_init [[1 / 2, 1 / 2], [0, 1]] ATOL_DEFAULT =
     Inr \<lparr>probabilities = [[1 / 2, 1 / 2], [0, 1]], number_of_qubits = 1\<rparr>
   \<and> ReadoutError_init [[1]] ATOL_DEFAULT = Inr \<lparr>probabilities = [[1]], number_of_qubits = 0\<rparr>
   \<and> compose \<lparr>probabilities = [[9 / 10, 1 / 10], [1 / 5, 4 / 5]], number_of_qubits = 1\<rparr>
         (IsReadoutError \<lparr>probabilities = [[1 / 2, 1 / 2], [0, 1]], number_of_qubits = 1\<rparr>) False =
       Inr \<lparr>probabilities = [[11 / 20, 9 / 20], [1 / 5, 4 / 5]], number_of_qubits = 1\<rparr>
   \<and> compose \<lparr>probabilities = [[9 / 10, 1 / 10], [1 / 5, 4 / 5]], number_of_qubits = 1\<rparr>
         (IsReadoutError \<lparr>probabilities = [[1 / 2, 1 / 2], [0, 1]], number_of_qubits = 1\<rparr>) True =
       Inr \<lparr>probabilities = [[9 / 20, 11 / 20], [1 / 10, 9 / 10]], number_of_qubits = 1\<rparr>
   \<and> compose \<lparr>probabilities = [[9 / 10, 1 / 10], [1 / 5, 4 / 5]], number_of_qubits = 1\<rparr>
         (IsReadoutError \<lparr>probabilities = [[1]], number_of_qubits = 0\<rparr>) False =
       Inl DimensionMismatch"
proof -
  let ?pa = "[[9 / 10, 1 / 10], [1 / 5, 4 / 5 :: real]]" and ?pb = "[[1 / 2, 1 / 2], [0, 1 :: real]]"
  let ?A = "\<lparr>probabilities = ?pa, number_of_qubits = 1\<rparr>"
  let ?B = "\<lparr>probabilities = ?pb, number_of_qubits = 1\<rparr>"
  let ?C = "\<lparr>probabilities = [[1 :: real]], number_of_qubits = 0\<rparr>"
  let ?ba = "[[11 / 20, 9 / 20], [1 / 5, 4 / 5 :: real]]"
  let ?ab = "[[9 / 20, 11 / 20], [1 / 10, 9 / 10 :: real]]"
  have ia: "ReadoutError_init ?pa ATOL_DEFAULT = Inr ?A"
    by (simp add: ReadoutError_init_def check_probabilities_def int_log2_def check_vec_def
      py_sum_def qubits_from_mat_def ATOL_DEFAULT_def)
  have ib: "ReadoutError_init ?pb ATOL_DEFAULT = Inr ?B"
    by (simp add: ReadoutError_init_def check_probabilities_def int_log2_def check_vec_def
      py_sum_def qubits_from_mat_def ATOL_DEFAULT_def)
  have ic: "ReadoutError_init [[1]] ATOL_DEFAULT = Inr ?C"
    by (simp add: ReadoutError_init_def check_probabilities_def int_log2_def check_vec_def
      py_sum_def qubits_from_mat_def ATOL_DEFAULT_def)
  have pba: "mat_prod ?pb ?pa = ?ba"
    by (simp add: mat_prod_def upt_rec lessThan_Suc eval_nat_numeral)
  have pab: "mat_prod ?pa ?pb = ?ab"
    by (simp add: mat_prod_def upt_rec lessThan_Suc eval_nat_numeral)
  have iba: "ReadoutError_init ?ba ATOL_DEFAULT = Inr \<lparr>probabilities = ?ba, number_of_qubits = 1\<rparr>"
    by (simp add: ReadoutError_init_def check_probabilities_def int_log2_def check_vec_def
      py_sum_def qubits_from_mat_def ATOL_DEFAULT_def)
  have iab: "ReadoutError_init ?ab ATOL_DEFAULT = Inr \<lparr>probabilities = ?ab, number_of_qubits = 1\<rparr>"
    by (simp add: ReadoutError_init_def check_probabilities_def int_log2_def check_vec_def
      py_sum_def qubits_from_mat_def ATOL_DEFAULT_def)
  have q: "number_of_qubits ?B = number_of_qubits ?A" by simp
  from compose_product [of ?pa ATOL_DEFAULT ?A ?pb ATOL_DEFAULT ?B] ia ib q
  have "compose ?A (IsReadoutError ?B) False = ReadoutError_init (mat_prod ?pb ?pa) ATOL_DEFAULT"
    and "compose ?A (IsReadoutError ?B) True = ReadoutError_init (mat_prod ?pa ?pb) ATOL_DEFAULT"
    by blast+
  then have "compose ?A (IsReadoutError ?B) False = Inr \<lparr>probabilities = ?ba, number_of_qubits = 1\<rparr>"
    and "compose ?A (IsReadoutError ?B) True = Inr \<lparr>probabilities = ?ab, number_of_qubits = 1\<rparr>"
    by (simp_all only: pba pab iba iab)
  moreover have "number_of_qubits ?C \<noteq> number_of_qubits ?A" by simp
  with compose_product [of ?pa ATOL_DEFAULT ?A "[[1]]" ATOL_DEFAULT ?C False] ia ic
  have "compose ?A (IsReadoutError ?C) False = Inl DimensionMismatch" by blast
  ultimately show ?thesis using ia ib ic by simp
qed

end
